theory Spec2Isabelle
  imports Main "HOL-Library.Monad_Syntax"
begin

section \<open>JavaScript values\<close>

text \<open>
  The server is an Express application: every request body reaches a handler as a value
  parsed from JSON (or \<open>undefined\<close> when there is no body). A JavaScript string is a
  sequence of UTF-16 code units, written here as a list of their numbers; \<open>str\<close> turns an
  ASCII literal of the source into that list.
\<close>

type_synonym jsstring = "nat list"

definition str :: "string \<Rightarrow> jsstring" where
  "str s = map of_char s"

text \<open>
  A number is represented by the text JavaScript prints for it: every number has exactly
  one, and zero and negative zero both print as \<open>0\<close>. The handlers only test a number for
  truthiness and convert it to text; no arithmetic is done on request data.
  An object is its list of own properties, looked up by name.
\<close>

datatype jsval =
    JUndefined
  | JNull
  | JBool bool
  | JNum jsstring
  | JStr jsstring
  | JArr "jsval list"
  | JObj "(jsstring \<times> jsval) list"

text \<open>
  \<open>Boolean(v)\<close>, the test behind \<open>!v\<close>, \<open>a || b\<close> and \<open>c ? a : b\<close>. The falsy numbers are
  zero, negative zero and NaN.
\<close>

fun truthy :: "jsval \<Rightarrow> bool" where
  "truthy JUndefined = False"
| "truthy JNull = False"
| "truthy (JBool b) = b"
| "truthy (JNum n) = (n \<noteq> str ''0'' \<and> n \<noteq> str ''NaN'')"
| "truthy (JStr s) = (s \<noteq> [])"
| "truthy (JArr xs) = True"
| "truthy (JObj kvs) = True"

text \<open>\<open>a || b\<close>: the left operand when it is truthy, the right one otherwise.\<close>

definition js_or :: "jsval \<Rightarrow> jsval \<Rightarrow> jsval" where
  "js_or a b = (if truthy a then a else b)"

text \<open>The decimal digits of a natural number: the text of a length.\<close>

fun digits :: "nat \<Rightarrow> jsstring" where
  "digits n = (if n < 10 then [48 + n] else digits (n div 10) @ [48 + n mod 10])"

declare digits.simps [simp del]

text \<open>
  \<open>v.k\<close> for the property names the handlers read (\<open>points\<close>, \<open>decisions\<close>,
  \<open>action_items\<close>, \<open>owner\<close>, \<open>task\<close>, \<open>due\<close>, \<open>transcript\<close>, \<open>instruction\<close>,
  \<open>summary\<close>, \<open>recipients\<close>, \<open>length\<close>): none of them is inherited from a prototype,
  except \<open>length\<close> of strings and arrays. Reading a property of \<open>undefined\<close> or \<open>null\<close>
  throws a TypeError: \<open>None\<close>.
\<close>

fun js_get :: "jsval \<Rightarrow> jsstring \<Rightarrow> jsval option" where
  "js_get JUndefined k = None"
| "js_get JNull k = None"
| "js_get (JBool b) k = Some JUndefined"
| "js_get (JNum n) k = Some JUndefined"
| "js_get (JStr s) k = Some (if k = str ''length'' then JNum (digits (length s)) else JUndefined)"
| "js_get (JArr xs) k = Some (if k = str ''length'' then JNum (digits (length xs)) else JUndefined)"
| "js_get (JObj kvs) k = Some (case map_of kvs k of None \<Rightarrow> JUndefined | Some v \<Rightarrow> v)"

text \<open>\<open>v?.k\<close>: \<open>undefined\<close> instead of the TypeError.\<close>

definition opt_get :: "jsval \<Rightarrow> jsstring \<Rightarrow> jsval" where
  "opt_get v k = (case js_get v k of None \<Rightarrow> JUndefined | Some x \<Rightarrow> x)"

fun isArray :: "jsval \<Rightarrow> bool" where
  "isArray (JArr xs) = True"
| "isArray v = False"

fun isString :: "jsval \<Rightarrow> bool" where
  "isString (JStr s) = True"
| "isString v = False"

text \<open>The elements of an array value (no elements for any other value).\<close>

fun elems :: "jsval \<Rightarrow> jsval list" where
  "elems (JArr xs) = xs"
| "elems v = []"

text \<open>
  The elements that an array method such as \<open>v.map(f)\<close> or \<open>v.join(sep)\<close> works on: the
  call is a TypeError, \<open>None\<close>, on a value that is not an array.
\<close>

fun js_elems :: "jsval \<Rightarrow> jsval list option" where
  "js_elems (JArr xs) = Some xs"
| "js_elems v = None"

section \<open>The summary shape normalizer\<close>

text \<open>
  The current server (the file with the \<open>parseBool\<close> helper and the CORS allow-list):
  \<^verbatim>\<open>
  const ensureSummaryShape = (obj) => ({
    points: Array.isArray(obj?.points) ? obj.points : [],
    decisions: Array.isArray(obj?.decisions) ? obj.decisions : [],
    action_items: Array.isArray(obj?.action_items)
      ? obj.action_items.map((a) => ({
          owner: a?.owner || "Unassigned",
          task: a?.task || "",
          due: a?.due || "",
        }))
      : [],
  });
  \<close>
  \<open>ensureSummaryShape_checked\<close> reads it with every unguarded property read
  (\<open>obj.points\<close>) and method call (\<open>.map\<close>) as a possible TypeError, \<open>None\<close>;
  \<open>ensureSummaryShape\<close> is the value it returns. The first theorem on the normalizer shows
  that the TypeError never happens, so the handlers are written with \<open>ensureSummaryShape\<close>.
\<close>

definition normalize_action_item :: "jsval \<Rightarrow> jsval" where
  "normalize_action_item a = JObj
     [(str ''owner'', js_or (opt_get a (str ''owner'')) (JStr (str ''Unassigned''))),
      (str ''task'', js_or (opt_get a (str ''task'')) (JStr [])),
      (str ''due'', js_or (opt_get a (str ''due'')) (JStr []))]"

definition ensureSummaryShape :: "jsval \<Rightarrow> jsval" where
  "ensureSummaryShape obj = JObj
     [(str ''points'',
         if isArray (opt_get obj (str ''points'')) then opt_get obj (str ''points'') else JArr []),
      (str ''decisions'',
         if isArray (opt_get obj (str ''decisions'')) then opt_get obj (str ''decisions'') else JArr []),
      (str ''action_items'',
         if isArray (opt_get obj (str ''action_items''))
         then JArr (map normalize_action_item (elems (opt_get obj (str ''action_items''))))
         else JArr [])]"

definition ensureSummaryShape_checked :: "jsval \<Rightarrow> jsval option" where
  "ensureSummaryShape_checked obj = do {
     points \<leftarrow> (if isArray (opt_get obj (str ''points'')) then js_get obj (str ''points'')
                else Some (JArr []));
     decisions \<leftarrow> (if isArray (opt_get obj (str ''decisions'')) then js_get obj (str ''decisions'')
                   else Some (JArr []));
     action_items \<leftarrow>
       (if isArray (opt_get obj (str ''action_items''))
        then do {
          items \<leftarrow> js_get obj (str ''action_items'');
          xs \<leftarrow> js_elems items;
          Some (JArr (map normalize_action_item xs)) }
        else Some (JArr []));
     Some (JObj [(str ''points'', points), (str ''decisions'', decisions),
                 (str ''action_items'', action_items)])
   }"

text \<open>
  The older server kept in \<^verbatim>\<open>src/server.js\<close> (lines 95 to 99) leaves the action items
  as they are:
  \<^verbatim>\<open>
  const ensureSummaryShape = (obj) => ({
    points: Array.isArray(obj?.points) ? obj.points : [],
    decisions: Array.isArray(obj?.decisions) ? obj.decisions : [],
    action_items: Array.isArray(obj?.action_items) ? obj.action_items : []
  });
  \<close>
\<close>

definition ensureSummaryShape_plain :: "jsval \<Rightarrow> jsval" where
  "ensureSummaryShape_plain obj = JObj
     [(str ''points'',
         if isArray (opt_get obj (str ''points'')) then opt_get obj (str ''points'') else JArr []),
      (str ''decisions'',
         if isArray (opt_get obj (str ''decisions'')) then opt_get obj (str ''decisions'') else JArr []),
      (str ''action_items'',
         if isArray (opt_get obj (str ''action_items'')) then opt_get obj (str ''action_items'')
         else JArr [])]"

definition ensureSummaryShape_plain_checked :: "jsval \<Rightarrow> jsval option" where
  "ensureSummaryShape_plain_checked obj = do {
     points \<leftarrow> (if isArray (opt_get obj (str ''points'')) then js_get obj (str ''points'')
                else Some (JArr []));
     decisions \<leftarrow> (if isArray (opt_get obj (str ''decisions'')) then js_get obj (str ''decisions'')
                   else Some (JArr []));
     action_items \<leftarrow>
       (if isArray (opt_get obj (str ''action_items'')) then js_get obj (str ''action_items'')
        else Some (JArr []));
     Some (JObj [(str ''points'', points), (str ''decisions'', decisions),
                 (str ''action_items'', action_items)])
   }"

subsection \<open>Shape predicates\<close>

text \<open>
  What the normalizer establishes: an object with exactly the three fields, in the order
  the source writes them, each holding an array.
\<close>

definition three_arrays :: "jsval \<Rightarrow> bool" where
  "three_arrays v =
     (case v of
        JObj kvs \<Rightarrow>
          map fst kvs = [str ''points'', str ''decisions'', str ''action_items'']
          \<and> list_all isArray (map snd kvs)
      | _ \<Rightarrow> False)"

text \<open>An action item with exactly the fields \<open>owner\<close>, \<open>task\<close> and \<open>due\<close>.\<close>

definition is_action_record :: "jsval \<Rightarrow> bool" where
  "is_action_record a =
     (case a of
        JObj kvs \<Rightarrow> map fst kvs = [str ''owner'', str ''task'', str ''due'']
      | _ \<Rightarrow> False)"

definition summary_shape :: "jsval \<Rightarrow> bool" where
  "summary_shape v =
     (three_arrays v \<and> list_all is_action_record (elems (opt_get v (str ''action_items''))))"

text \<open>
  The invariant as the specification words it: on top of the shape, every point and every
  decision is a string, and the three fields of every action item are strings.
\<close>

definition spec_summary_invariant :: "jsval \<Rightarrow> bool" where
  "spec_summary_invariant v =
     (summary_shape v
      \<and> list_all isString (elems (opt_get v (str ''points'')))
      \<and> list_all isString (elems (opt_get v (str ''decisions'')))
      \<and> list_all
          (\<lambda>a. isString (opt_get a (str ''owner'')) \<and> isString (opt_get a (str ''task''))
                \<and> isString (opt_get a (str ''due'')))
          (elems (opt_get v (str ''action_items''))))"

section \<open>String operations\<close>

text \<open>
  The code units that \<open>\s\<close> in a regular expression and \<open>String.prototype.trim\<close> treat as
  white space: TAB, LF, VT, FF, CR, space, NBSP, U+1680, U+2000 to U+200A, U+2028, U+2029,
  U+202F, U+205F, U+3000 and U+FEFF.
\<close>

definition is_ws :: "nat \<Rightarrow> bool" where
  "is_ws c = (c \<in> {9, 10, 11, 12, 13, 32, 160, 5760, 8232, 8233, 8239, 8287, 12288, 65279}
              \<or> (8192 \<le> c \<and> c \<le> 8202))"

definition js_trim :: "jsstring \<Rightarrow> jsstring" where
  "js_trim s = rev (dropWhile is_ws (rev (dropWhile is_ws s)))"

text \<open>The characters of the class \<open>[.?!]\<close>.\<close>

definition is_sentence_end :: "nat \<Rightarrow> bool" where
  "is_sentence_end c = (c = 46 \<or> c = 63 \<or> c = 33)"

text \<open>
  The length of the match of \<^verbatim>\<open>/\r?\n|[.?!]\s+/\<close> at the start of a string, 0 when it
  does not match there. The first alternative matches a line feed, or a carriage return
  followed by one; the second a sentence end followed by white space, as much of it as
  there is (\<open>+\<close> is greedy). A match is never empty.
\<close>

fun match_sep :: "jsstring \<Rightarrow> nat" where
  "match_sep [] = 0"
| "match_sep (c # cs) =
     (if c = 10 then 1
      else if c = 13 \<and> take 1 cs = [10] then 2
      else if is_sentence_end c \<and> takeWhile is_ws cs \<noteq> [] then 1 + length (takeWhile is_ws cs)
      else 0)"

text \<open>
  \<open>String.prototype.split\<close> with that regular expression: the matcher is tried at each
  position in turn; where it matches, the fragment read so far is closed and reading
  resumes after the match; the text after the last match is the last fragment.
  \<open>frag\<close> is the fragment read so far.
\<close>

function js_split_from :: "jsstring \<Rightarrow> jsstring \<Rightarrow> jsstring list" where
  "js_split_from frag [] = [frag]"
| "js_split_from frag (c # cs) =
     (if match_sep (c # cs) = 0 then js_split_from (frag @ [c]) cs
      else frag # js_split_from [] (drop (match_sep (c # cs)) (c # cs)))"
  by pat_completeness auto
termination
  by (relation "measure (\<lambda>(frag, s). length s)") auto

definition js_split :: "jsstring \<Rightarrow> jsstring list" where
  "js_split s = js_split_from [] s"

text \<open>
  The split in the specification's words: the transcript is cut at newline boundaries and
  at sentence-ending punctuation followed by white space. A boundary is a line feed, a
  carriage return with a line feed, or a sentence end with the white space after it.
\<close>

definition is_boundary :: "jsstring \<Rightarrow> bool" where
  "is_boundary b =
     (b = [10] \<or> b = [13, 10]
      \<or> (case b of [] \<Rightarrow> False | c # w \<Rightarrow> is_sentence_end c \<and> w \<noteq> [] \<and> list_all is_ws w))"

text \<open>Fragments and the boundaries between them, put back together.\<close>

fun weave :: "jsstring list \<Rightarrow> jsstring list \<Rightarrow> jsstring" where
  "weave [] bs = []"
| "weave (f # fs) [] = f"
| "weave (f # fs) (b # bs) = f @ b @ weave fs bs"

text \<open>A boundary begins at the start of the string.\<close>

definition boundary_at :: "jsstring \<Rightarrow> bool" where
  "boundary_at s =
     (take 1 s = [10] \<or> take 2 s = [13, 10]
      \<or> (list_ex is_sentence_end (take 1 s) \<and> list_ex is_ws (take 1 (drop 1 s))))"

text \<open>No boundary begins inside the fragment \<open>f\<close>, read on into the text \<open>ctx\<close> that follows it.\<close>

fun no_boundary_inside :: "jsstring \<Rightarrow> jsstring \<Rightarrow> bool" where
  "no_boundary_inside [] ctx = True"
| "no_boundary_inside (c # f) ctx = (\<not> boundary_at (c # f @ ctx) \<and> no_boundary_inside f ctx)"

text \<open>
  The fragments \<open>fs\<close> with the boundaries \<open>bs\<close> between them are the split of the text
  they weave: there is one boundary between two neighbours, each is a boundary, one made
  of a sentence end takes all the white space that follows, and no boundary begins inside
  a fragment.
\<close>

fun cuts :: "jsstring list \<Rightarrow> jsstring list \<Rightarrow> bool" where
  "cuts [] bs = False"
| "cuts [f] bs = (bs = [] \<and> no_boundary_inside f [])"
| "cuts (f # g # fs) [] = False"
| "cuts (f # g # fs) (b # bs) =
     (is_boundary b
      \<and> (list_ex is_sentence_end (take 1 b) \<longrightarrow> \<not> list_ex is_ws (take 1 (weave (g # fs) bs)))
      \<and> no_boundary_inside f (b @ weave (g # fs) bs)
      \<and> cuts (g # fs) bs)"

text \<open>
  Trimming in the specification's words: \<open>p\<close> is \<open>f\<close> without the white space at its two
  ends. A trimmed string neither begins nor ends with white space.
\<close>

definition trimmed :: "jsstring \<Rightarrow> bool" where
  "trimmed p = (p = [] \<or> (\<not> is_ws (hd p) \<and> \<not> is_ws (last p)))"

definition trims_to :: "jsstring \<Rightarrow> jsstring \<Rightarrow> bool" where
  "trims_to f p =
     (trimmed p
      \<and> list_ex (\<lambda>k. list_all is_ws (take k f) \<and> take (length p) (drop k f) = p
                      \<and> list_all is_ws (drop (k + length p) f))
          [0..<Suc (length f)])"

text \<open>
  The transcript has text: a character that is not white space and is not a sentence end
  directly followed by white space.
\<close>

fun has_text :: "jsstring \<Rightarrow> bool" where
  "has_text [] = False"
| "has_text (c # cs) =
     ((\<not> is_ws c \<and> \<not> (is_sentence_end c \<and> list_ex is_ws (take 1 cs))) \<or> has_text cs)"

text \<open>\<open>value.split("\n")\<close>, the split of the edit form, on the line feed alone.\<close>

fun split_nl_from :: "jsstring \<Rightarrow> jsstring \<Rightarrow> jsstring list" where
  "split_nl_from frag [] = [frag]"
| "split_nl_from frag (c # cs) =
     (if c = 10 then frag # split_nl_from [] cs else split_nl_from (frag @ [c]) cs)"

definition split_nl :: "jsstring \<Rightarrow> jsstring list" where
  "split_nl s = split_nl_from [] s"

text \<open>The strings of a list joined with a separator between neighbours.\<close>

fun js_join :: "jsstring \<Rightarrow> jsstring list \<Rightarrow> jsstring" where
  "js_join sep [] = []"
| "js_join sep [x] = x"
| "js_join sep (x # y # ys) = x @ sep @ js_join sep (y # ys)"

text \<open>
  The conversion to a string that a template literal, \<open>String(v)\<close> and
  \<open>Array.prototype.join\<close> apply. An array is joined with commas, \<open>undefined\<close> and \<open>null\<close>
  elements giving the empty string. A parsed JSON object holds no function, so when it has
  an own property \<open>toString\<close> the conversion finds no callable \<open>toString\<close>, gets the
  object itself back from \<open>valueOf\<close>, and throws a TypeError: \<open>None\<close>. Any other object is
  \<open>[object Object]\<close>.
\<close>

fun ToString :: "jsval \<Rightarrow> jsstring option"
  and join_strings :: "jsval list \<Rightarrow> jsstring list option" where
  "ToString JUndefined = Some (str ''undefined'')"
| "ToString JNull = Some (str ''null'')"
| "ToString (JBool b) = Some (if b then str ''true'' else str ''false'')"
| "ToString (JNum n) = Some n"
| "ToString (JStr s) = Some s"
| "ToString (JArr xs) = map_option (js_join [44]) (join_strings xs)"
| "ToString (JObj kvs) =
     (if str ''toString'' \<in> set (map fst kvs) then None else Some (str ''[object Object]''))"
| "join_strings [] = Some []"
| "join_strings (x # xs) =
     (case (case x of JUndefined \<Rightarrow> Some [] | JNull \<Rightarrow> Some [] | _ \<Rightarrow> ToString x) of
        None \<Rightarrow> None
      | Some s \<Rightarrow> map_option ((#) s) (join_strings xs))"

text \<open>\<open>v.join(sep)\<close> joins the converted elements of an array.\<close>

definition array_join :: "jsstring \<Rightarrow> jsval \<Rightarrow> jsstring option" where
  "array_join sep v = do { xs \<leftarrow> js_elems v; ss \<leftarrow> join_strings xs; Some (js_join sep ss) }"

section \<open>The mock summarizer\<close>

text \<open>
  \<^verbatim>\<open>
  const lines = String(transcript)
    .split(/\r?\n|[.?!]\s+/)
    .map((s) => s.trim())
    .filter(Boolean);
  \<close>
\<close>

definition mock_lines :: "jsstring \<Rightarrow> jsstring list" where
  "mock_lines t = filter (\<lambda>s. s \<noteq> []) (map js_trim (js_split t))"

text \<open>The bound of \<open>lines.slice(0, 6)\<close>.\<close>

definition mock_points_limit :: nat where
  "mock_points_limit = 6"

definition action_item :: "string \<Rightarrow> string \<Rightarrow> string \<Rightarrow> jsval" where
  "action_item ownr tsk du =
     JObj [(str ''owner'', JStr (str ownr)), (str ''task'', JStr (str tsk)), (str ''due'', JStr (str du))]"

text \<open>The object the mock branch hands to the normalizer.\<close>

definition mock_candidate :: "jsstring \<Rightarrow> jsval" where
  "mock_candidate t = JObj
     [(str ''points'', JArr (map JStr (take mock_points_limit (mock_lines t)))),
      (str ''decisions'', JArr [JStr (str ''Proceed with current timeline.'')]),
      (str ''action_items'',
         JArr [action_item ''John'' ''Finish API integration'' ''Friday'',
               action_item ''Sarah'' ''Design frontend UI'' ''Wednesday''])]"

section \<open>The request handlers\<close>

record response =
  status :: nat
  body :: jsval

definition json_ok :: "jsval \<Rightarrow> response" where
  "json_ok v = \<lparr>status = 200, body = v\<rparr>"

definition json_error :: "nat \<Rightarrow> string \<Rightarrow> response" where
  "json_error code msg = \<lparr>status = code, body = JObj [(str ''error'', JStr (str msg))]\<rparr>"

text \<open>
  The language model is an external collaborator. One call sends a fixed system message
  and a user message that embeds the instruction and the transcript, so a call is
  determined by these two strings. Its outcome, after the handler has stripped the code
  fences of the reply and run \<open>JSON.parse\<close> on it: the call (or the reading of the
  reply) threw, the reply was not JSON, or the parsed value.
\<close>

datatype llm_outcome = LLM_threw | LLM_invalid_json | LLM_parsed jsval

type_synonym llm_client = "jsstring \<Rightarrow> jsstring \<Rightarrow> llm_outcome"

text \<open>
  The configuration read once at startup: the mock flag, and the client, which exists
  exactly when a credential is configured
  (\<open>groq = HAS_GROQ ? new Groq(...) : null\<close>).
\<close>

record config =
  USE_MOCK :: bool
  groq :: "llm_client option"

subsection \<open>POST /generate-summary\<close>

text \<open>
  The handler of the current server. Its result is the response and the calls made to
  the language model, each as the pair of instruction and transcript it sent.
  \<^verbatim>\<open>
  try {
    const { transcript, instruction } = req.body || {};
    if (!transcript || !instruction) {
      return res.status(400).json({ error: "Transcript and instruction are required" });
    }
    if (USE_MOCK || !groq) {
      const lines = ...;
      const summary = ensureSummaryShape({ points: lines.slice(0, 6), ... });
      return res.json({ summary });
    }
    const messages = [ ..., `Instruction: ${instruction}\n\nTranscript:\n${transcript}...` ];
    const completion = await groq.chat.completions.create({ ... });
    ...
    try { json = JSON.parse(text); }
    catch (e) { return res.status(500).json({ error: "Groq returned invalid JSON" }); }
    return res.json({ summary: ensureSummaryShape(json) });
  } catch (err) {
    return res.status(500).json({ error: "Failed to generate summary (server error)" });
  }
  \<close>
\<close>

definition generate_failed :: response where
  "generate_failed = json_error 500 ''Failed to generate summary (server error)''"

definition mock_response :: "jsstring \<Rightarrow> response" where
  "mock_response t = json_ok (JObj [(str ''summary'', ensureSummaryShape (mock_candidate t))])"

definition llm_path :: "nat \<Rightarrow> llm_client option \<Rightarrow> jsval \<Rightarrow> jsval \<Rightarrow> response \<times> (jsstring \<times> jsstring) list" where
  "llm_path bad_json_status client transcript instruction =
     (case ToString instruction of
        None \<Rightarrow> (generate_failed, [])
      | Some i \<Rightarrow>
     (case ToString transcript of
        None \<Rightarrow> (generate_failed, [])
      | Some t \<Rightarrow>
     (case client of
        None \<Rightarrow> (generate_failed, [])
      | Some call \<Rightarrow>
     (case call i t of
        LLM_threw \<Rightarrow> (generate_failed, [(i, t)])
      | LLM_invalid_json \<Rightarrow> (json_error bad_json_status ''Groq returned invalid JSON'', [(i, t)])
      | LLM_parsed json \<Rightarrow>
          (json_ok (JObj [(str ''summary'', ensureSummaryShape json)]), [(i, t)])))))"

definition generate_summary :: "config \<Rightarrow> jsval \<Rightarrow> response \<times> (jsstring \<times> jsstring) list" where
  "generate_summary cfg req_body =
     (case js_get (js_or req_body (JObj [])) (str ''transcript'') of
        None \<Rightarrow> (generate_failed, [])
      | Some transcript \<Rightarrow>
     (case js_get (js_or req_body (JObj [])) (str ''instruction'') of
        None \<Rightarrow> (generate_failed, [])
      | Some instruction \<Rightarrow>
          if \<not> truthy transcript \<or> \<not> truthy instruction
          then (json_error 400 ''Transcript and instruction are required'', [])
          else if USE_MOCK cfg \<or> groq cfg = None
          then (case ToString transcript of
                  None \<Rightarrow> (generate_failed, [])
                | Some t \<Rightarrow> (mock_response t, []))
          else llm_path 500 (groq cfg) transcript instruction))"

subsection \<open>POST /generate-summary, the variant with explicit mock mode\<close>

text \<open>
  A second server file of the repository (the one whose \<open>USE_MOCK\<close> defaults to false)
  has the same normalizer and a different handler: mock mode is entered on the flag
  alone, and a missing client is an error.
  \<^verbatim>\<open>
  // Mock mode (explicit only)
  if (USE_MOCK) {
    const lines = String(transcript).split(/\r?\n|[.?!]\s+/).map((s) => s.trim()).filter(Boolean);
    const points = lines.filter((l) => !/^\s*\.\.\.\s*$/.test(l)).slice(0, 8);
    const summary = ensureSummaryShape({
      points,
      decisions: points.some((p) => /demo|approve|decision|agree/i.test(p))
        ? ["Stakeholders aligned on next steps."] : [],
      action_items: points
        .filter((p) => /by (monday|tuesday|wednesday|thursday|friday)|due|deliver|send/i.test(p))
        .slice(0, 3)
        .map((p, i) => ({ owner: ["John", "Sarah", "Alex"][i] || "Owner", task: p, due: "" }))
    });
    return res.json({ summary });
  }
  // Real Groq mode
  if (!groq) {
    return res.status(500).json({
      error: "GROQ_API_KEY not configured. Set USE_MOCK=true to test without LLM."
    });
  }
  \<close>
  A reply that is not JSON is answered with 502 there.
\<close>

text \<open>\<^verbatim>\<open>/^\s*\.\.\.\s*$/\<close>: three dots, with nothing but white space around them.\<close>

definition dots_only :: "jsstring \<Rightarrow> bool" where
  "dots_only l =
     (take 3 (dropWhile is_ws l) = [46, 46, 46] \<and> list_all is_ws (drop 3 (dropWhile is_ws l)))"

text \<open>
  Matching with the flag \<open>i\<close> compares characters by their upper case. The patterns are
  ASCII, and a character outside ASCII is never mapped into ASCII, so only the ASCII
  letters need a mapping.
\<close>

definition ascii_upper :: "nat \<Rightarrow> nat" where
  "ascii_upper c = (if 97 \<le> c \<and> c \<le> 122 then c - 32 else c)"

fun ci_prefix :: "jsstring \<Rightarrow> jsstring \<Rightarrow> bool" where
  "ci_prefix [] s = True"
| "ci_prefix (p # ps) [] = False"
| "ci_prefix (p # ps) (c # cs) = (ascii_upper c = ascii_upper p \<and> ci_prefix ps cs)"

text \<open>\<open>/w1|w2|.../i.test(s)\<close>: one of the words occurs somewhere in \<open>s\<close>.\<close>

fun ci_search :: "jsstring list \<Rightarrow> jsstring \<Rightarrow> bool" where
  "ci_search pats [] = list_ex (\<lambda>p. ci_prefix p []) pats"
| "ci_search pats (c # cs) = (list_ex (\<lambda>p. ci_prefix p (c # cs)) pats \<or> ci_search pats cs)"

definition decision_words :: "jsstring list" where
  "decision_words = map str [''demo'', ''approve'', ''decision'', ''agree'']"

definition deadline_words :: "jsstring list" where
  "deadline_words = map str
     [''by monday'', ''by tuesday'', ''by wednesday'', ''by thursday'', ''by friday'',
      ''due'', ''deliver'', ''send'']"

text \<open>\<open>xs[i]\<close>: \<open>undefined\<close> beyond the end.\<close>

definition js_index :: "jsval list \<Rightarrow> nat \<Rightarrow> jsval" where
  "js_index xs i = (if i < length xs then xs ! i else JUndefined)"

definition explicit_mock_points :: "jsstring \<Rightarrow> jsstring list" where
  "explicit_mock_points t = take 8 (filter (\<lambda>l. \<not> dots_only l) (mock_lines t))"

definition explicit_mock_candidate :: "jsstring \<Rightarrow> jsval" where
  "explicit_mock_candidate t = JObj
     [(str ''points'', JArr (map JStr (explicit_mock_points t))),
      (str ''decisions'',
         if list_ex (ci_search decision_words) (explicit_mock_points t)
         then JArr [JStr (str ''Stakeholders aligned on next steps.'')] else JArr []),
      (str ''action_items'',
         JArr (map (\<lambda>(i, p). JObj
                 [(str ''owner'',
                     js_or (js_index [JStr (str ''John''), JStr (str ''Sarah''), JStr (str ''Alex'')] i)
                       (JStr (str ''Owner''))),
                  (str ''task'', JStr p),
                  (str ''due'', JStr [])])
               (enumerate 0 (take 3 (filter (ci_search deadline_words) (explicit_mock_points t))))))]"

definition generate_summary_explicit :: "config \<Rightarrow> jsval \<Rightarrow> response \<times> (jsstring \<times> jsstring) list" where
  "generate_summary_explicit cfg req_body =
     (case js_get (js_or req_body (JObj [])) (str ''transcript'') of
        None \<Rightarrow> (generate_failed, [])
      | Some transcript \<Rightarrow>
     (case js_get (js_or req_body (JObj [])) (str ''instruction'') of
        None \<Rightarrow> (generate_failed, [])
      | Some instruction \<Rightarrow>
          if \<not> truthy transcript \<or> \<not> truthy instruction
          then (json_error 400 ''Transcript and instruction are required'', [])
          else if USE_MOCK cfg
          then (case ToString transcript of
                  None \<Rightarrow> (generate_failed, [])
                | Some t \<Rightarrow>
                    (json_ok (JObj [(str ''summary'', ensureSummaryShape (explicit_mock_candidate t))]), []))
          else if groq cfg = None
          then (json_error 500 ''GROQ_API_KEY not configured. Set USE_MOCK=true to test without LLM.'', [])
          else llm_path 502 (groq cfg) transcript instruction))"

subsection \<open>POST /send-summary\<close>

text \<open>
  \<^verbatim>\<open>
  try {
    const rawSummary = req.body?.summary || {};
    const recipients = req.body?.recipients || [];
    const summary = ensureSummaryShape(rawSummary);
    if (!recipients.length) {
      return res.status(400).json({ error: "Recipients array is required" });
    }
    const bullets = summary.points.map((p) => `<li>${p}</li>`).join("");
    const decisionsHTML = summary.decisions.length
      ? `<h4>Decisions</h4><ul>${summary.decisions.map((d) => `<li>${d}</li>`).join("")}</ul>`
      : "";
    const actionsHTML = summary.action_items.length
      ? `<h4>Action Items</h4><ul>${summary.action_items
          .map((a) => `<li><strong>${a.owner}</strong>: ${a.task} - <em>${a.due}</em></li>`)
          .join("")}</ul>`
      : "";
    const html = `<h2>Meeting Summary</h2><h4>Key Points</h4><ul>${bullets}</ul>${decisionsHTML}${actionsHTML}`;
    const previewUrl = await sendEmailHTML(recipients, "Meeting Summary", html);
    return res.json({ message: "Email sent (preview available)", previewUrl });
  } catch (err) {
    return res.status(500).json({ error: "Failed to send summary" });
  }
  \<close>
  (Where this text has \<open> - \<close> before \<open><em>\<close>, the file of the current server has a space,
  the three characters U+00E2, U+20AC, U+201D and a space.) In the model \<open>None\<close> is a
  thrown exception, which the handler's \<open>catch\<close> turns into the 500 response.
\<close>

text \<open>\<open>`<li>${p}</li>`\<close> for every element, concatenated: \<open>xs.map(...).join("")\<close>.\<close>

definition render_items :: "jsval list \<Rightarrow> jsstring option" where
  "render_items xs =
     map_option concat
       (those (map (\<lambda>p. map_option (\<lambda>s. str ''<li>'' @ s @ str ''</li>'') (ToString p)) xs))"

definition render_action :: "jsval \<Rightarrow> jsstring option" where
  "render_action a = do {
     ownr \<leftarrow> js_get a (str ''owner''); os \<leftarrow> ToString ownr;
     tsk \<leftarrow> js_get a (str ''task''); ts \<leftarrow> ToString tsk;
     du \<leftarrow> js_get a (str ''due''); ds \<leftarrow> ToString du;
     Some (str ''<li><strong>'' @ os @ str ''</strong>: '' @ ts @ [32, 226, 8364, 8221, 32]
           @ str ''<em>'' @ ds @ str ''</em></li>'')
   }"

definition render_summary :: "jsval \<Rightarrow> jsstring option" where
  "render_summary summary = do {
     pv \<leftarrow> js_get summary (str ''points'');
     points \<leftarrow> js_elems pv;
     bullets \<leftarrow> render_items points;
     dv \<leftarrow> js_get summary (str ''decisions'');
     dlen \<leftarrow> js_get dv (str ''length'');
     decisionsHTML \<leftarrow>
       (if truthy dlen
        then do {
          decisions \<leftarrow> js_elems dv;
          items \<leftarrow> render_items decisions;
          Some (str ''<h4>Decisions</h4><ul>'' @ items @ str ''</ul>'') }
        else Some []);
     av \<leftarrow> js_get summary (str ''action_items'');
     alen \<leftarrow> js_get av (str ''length'');
     actionsHTML \<leftarrow>
       (if truthy alen
        then do {
          actions \<leftarrow> js_elems av;
          items \<leftarrow> those (map render_action actions);
          Some (str ''<h4>Action Items</h4><ul>'' @ concat items @ str ''</ul>'') }
        else Some []);
     Some (str ''<h2>Meeting Summary</h2><h4>Key Points</h4><ul>'' @ bullets @ str ''</ul>''
           @ decisionsHTML @ actionsHTML)
   }"

text \<open>
  The mail collaborator \<open>sendEmailHTML(recipients, subject, html)\<close>: the preview locator
  it yields, or \<open>None\<close> when it throws. The handler's result is the response and the calls
  made to the collaborator.
\<close>

type_synonym mailer = "jsval \<Rightarrow> jsstring \<Rightarrow> jsstring \<Rightarrow> jsval option"

definition send_failed :: response where
  "send_failed = json_error 500 ''Failed to send summary''"

definition send_summary :: "mailer \<Rightarrow> jsval \<Rightarrow> response \<times> (jsval \<times> jsstring \<times> jsstring) list" where
  "send_summary send_mail req_body =
     (let rawSummary = js_or (opt_get req_body (str ''summary'')) (JObj []);
          recipients = js_or (opt_get req_body (str ''recipients'')) (JArr []);
          summary = ensureSummaryShape rawSummary
      in case js_get recipients (str ''length'') of
           None \<Rightarrow> (send_failed, [])
         | Some n \<Rightarrow>
             if \<not> truthy n
             then (json_error 400 ''Recipients array is required'', [])
             else (case render_summary summary of
                     None \<Rightarrow> (send_failed, [])
                   | Some html \<Rightarrow>
                       (case send_mail recipients (str ''Meeting Summary'') html of
                          None \<Rightarrow> (send_failed, [(recipients, str ''Meeting Summary'', html)])
                        | Some previewUrl \<Rightarrow>
                            (json_ok (JObj [(str ''message'', JStr (str ''Email sent (preview available)'')),
                                            (str ''previewUrl'', previewUrl)]),
                             [(recipients, str ''Meeting Summary'', html)]))))"

text \<open>
  The handler kept in \<^verbatim>\<open>src/server.js\<close> (lines 207 to 227) has the same lines, with
  the older normalizer, the defaults applied when an action item is rendered, and another
  message:
  \<^verbatim>\<open>
  const actionsHTML = summary.action_items.length
    ? `<h4>Action Items</h4><ul>${summary.action_items.map(a =>
        `<li><strong>${a.owner||"Owner"}</strong>: ${a.task||""} - <em>${a.due||""}</em></li>`
      ).join("")}</ul>`
    : "";
  ...
  return res.json({ message: "Mock email sent", previewUrl });
  \<close>
  (Where this text has \<open> - \<close>, that file has a space, U+2014 and a space.) There \<open>a\<close> is
  an element of the request's own array, and \<open>a.owner\<close> throws when it is \<open>null\<close>.
\<close>

definition render_action_plain :: "jsval \<Rightarrow> jsstring option" where
  "render_action_plain a = do {
     ownr \<leftarrow> js_get a (str ''owner''); os \<leftarrow> ToString (js_or ownr (JStr (str ''Owner'')));
     tsk \<leftarrow> js_get a (str ''task''); ts \<leftarrow> ToString (js_or tsk (JStr []));
     du \<leftarrow> js_get a (str ''due''); ds \<leftarrow> ToString (js_or du (JStr []));
     Some (str ''<li><strong>'' @ os @ str ''</strong>: '' @ ts @ [32, 8212, 32] @ str ''<em>'' @ ds
           @ str ''</em></li>'')
   }"

definition render_summary_plain :: "jsval \<Rightarrow> jsstring option" where
  "render_summary_plain summary = do {
     pv \<leftarrow> js_get summary (str ''points'');
     points \<leftarrow> js_elems pv;
     bullets \<leftarrow> render_items points;
     dv \<leftarrow> js_get summary (str ''decisions'');
     dlen \<leftarrow> js_get dv (str ''length'');
     decisionsHTML \<leftarrow>
       (if truthy dlen
        then do {
          decisions \<leftarrow> js_elems dv;
          items \<leftarrow> render_items decisions;
          Some (str ''<h4>Decisions</h4><ul>'' @ items @ str ''</ul>'') }
        else Some []);
     av \<leftarrow> js_get summary (str ''action_items'');
     alen \<leftarrow> js_get av (str ''length'');
     actionsHTML \<leftarrow>
       (if truthy alen
        then do {
          actions \<leftarrow> js_elems av;
          items \<leftarrow> those (map render_action_plain actions);
          Some (str ''<h4>Action Items</h4><ul>'' @ concat items @ str ''</ul>'') }
        else Some []);
     Some (str ''<h2>Meeting Summary</h2><h4>Key Points</h4><ul>'' @ bullets @ str ''</ul>''
           @ decisionsHTML @ actionsHTML)
   }"

definition send_summary_plain :: "mailer \<Rightarrow> jsval \<Rightarrow> response \<times> (jsval \<times> jsstring \<times> jsstring) list" where
  "send_summary_plain send_mail req_body =
     (let rawSummary = js_or (opt_get req_body (str ''summary'')) (JObj []);
          recipients = js_or (opt_get req_body (str ''recipients'')) (JArr []);
          summary = ensureSummaryShape_plain rawSummary
      in case js_get recipients (str ''length'') of
           None \<Rightarrow> (send_failed, [])
         | Some n \<Rightarrow>
             if \<not> truthy n
             then (json_error 400 ''Recipients array is required'', [])
             else (case render_summary_plain summary of
                     None \<Rightarrow> (send_failed, [])
                   | Some html \<Rightarrow>
                       (case send_mail recipients (str ''Meeting Summary'') html of
                          None \<Rightarrow> (send_failed, [(recipients, str ''Meeting Summary'', html)])
                        | Some previewUrl \<Rightarrow>
                            (json_ok (JObj [(str ''message'', JStr (str ''Mock email sent'')),
                                            (str ''previewUrl'', previewUrl)]),
                             [(recipients, str ''Meeting Summary'', html)]))))"

text \<open>The summary the handler renders: the normalized \<open>req.body?.summary || {}\<close>.\<close>

definition request_summary :: "jsval \<Rightarrow> jsval" where
  "request_summary req_body =
     ensureSummaryShape (js_or (opt_get req_body (str ''summary'')) (JObj []))"

definition request_summary_plain :: "jsval \<Rightarrow> jsval" where
  "request_summary_plain req_body =
     ensureSummaryShape_plain (js_or (opt_get req_body (str ''summary'')) (JObj []))"

text \<open>
  The HTML fragment in the specification's words: the points as a list, the decisions and
  the action items as sections that are there when they have entries. The arguments are
  the texts of the points and of the decisions and the lines of the action items.
\<close>

definition li :: "jsstring \<Rightarrow> jsstring" where
  "li s = str ''<li>'' @ s @ str ''</li>''"

definition action_line :: "jsstring \<Rightarrow> jsstring \<Rightarrow> jsstring \<Rightarrow> jsstring \<Rightarrow> jsstring" where
  "action_line dash ownr tsk du =
     str ''<li><strong>'' @ ownr @ str ''</strong>: '' @ tsk @ dash @ str ''<em>'' @ du
     @ str ''</em></li>''"

definition summary_html :: "jsstring list \<Rightarrow> jsstring list \<Rightarrow> jsstring list \<Rightarrow> jsstring" where
  "summary_html points decisions action_lines =
     str ''<h2>Meeting Summary</h2><h4>Key Points</h4><ul>'' @ concat (map li points) @ str ''</ul>''
     @ (if decisions = [] then []
        else str ''<h4>Decisions</h4><ul>'' @ concat (map li decisions) @ str ''</ul>'')
     @ (if action_lines = [] then []
        else str ''<h4>Action Items</h4><ul>'' @ concat action_lines @ str ''</ul>'')"

text \<open>The text of a value that can be converted to a string.\<close>

definition text_of :: "jsval \<Rightarrow> jsstring" where
  "text_of v = (case ToString v of None \<Rightarrow> [] | Some s \<Rightarrow> s)"

text \<open>
  The fragment expected for a normalized summary: in the current server from the fields of
  its action items, in the handler of \<^verbatim>\<open>src/server.js\<close> with the defaults \<open>"Owner"\<close>,
  \<open>""\<close> and \<open>""\<close> for falsy fields.
\<close>

definition expected_html :: "jsval \<Rightarrow> jsstring" where
  "expected_html summary =
     summary_html
       (map text_of (elems (opt_get summary (str ''points''))))
       (map text_of (elems (opt_get summary (str ''decisions''))))
       (map (\<lambda>a. action_line [32, 226, 8364, 8221, 32]
                  (text_of (opt_get a (str ''owner''))) (text_of (opt_get a (str ''task'')))
                  (text_of (opt_get a (str ''due''))))
            (elems (opt_get summary (str ''action_items''))))"

definition expected_html_plain :: "jsval \<Rightarrow> jsstring" where
  "expected_html_plain summary =
     summary_html
       (map text_of (elems (opt_get summary (str ''points''))))
       (map text_of (elems (opt_get summary (str ''decisions''))))
       (map (\<lambda>a. action_line [32, 8212, 32]
                  (text_of (js_or (opt_get a (str ''owner'')) (JStr (str ''Owner''))))
                  (text_of (js_or (opt_get a (str ''task'')) (JStr [])))
                  (text_of (js_or (opt_get a (str ''due'')) (JStr []))))
            (elems (opt_get summary (str ''action_items''))))"

text \<open>A value, and a summary all of whose rendered values, can be converted to a string.\<close>

definition renders :: "jsval \<Rightarrow> bool" where
  "renders v = (ToString v \<noteq> None)"

definition can_render :: "jsval \<Rightarrow> bool" where
  "can_render summary =
     (list_all renders (elems (opt_get summary (str ''points'')))
      \<and> list_all renders (elems (opt_get summary (str ''decisions'')))
      \<and> list_all
          (\<lambda>a. renders (opt_get a (str ''owner'')) \<and> renders (opt_get a (str ''task''))
                \<and> renders (opt_get a (str ''due'')))
          (elems (opt_get summary (str ''action_items''))))"

text \<open>
  In the handler of \<^verbatim>\<open>src/server.js\<close> an action item is read as it came: it must not be
  \<open>undefined\<close> or \<open>null\<close>, and what is converted is the field or its default.
\<close>

definition can_render_plain :: "jsval \<Rightarrow> bool" where
  "can_render_plain summary =
     (list_all renders (elems (opt_get summary (str ''points'')))
      \<and> list_all renders (elems (opt_get summary (str ''decisions'')))
      \<and> list_all
          (\<lambda>a. a \<noteq> JUndefined \<and> a \<noteq> JNull
                \<and> renders (js_or (opt_get a (str ''owner'')) (JStr (str ''Owner'')))
                \<and> renders (js_or (opt_get a (str ''task'')) (JStr []))
                \<and> renders (js_or (opt_get a (str ''due'')) (JStr [])))
          (elems (opt_get summary (str ''action_items''))))"

section \<open>The edit form of the front end\<close>

text \<open>
  \<^verbatim>\<open>
  const safeArr = (v) => (Array.isArray(v) ? v : []);
  const toLines = (arr) => safeArr(arr).join("\n");
  ...
  <textarea value={toLines(summary.points)}
    onChange={(e) => setSummary((s) => ({ ...s,
      points: e.target.value.split("\n").map((x) => x.trim()).filter(Boolean) }))} />
  \<close>
\<close>

definition safeArr :: "jsval \<Rightarrow> jsval" where
  "safeArr v = (if isArray v then v else JArr [])"

definition toLines :: "jsval \<Rightarrow> jsstring option" where
  "toLines arr = array_join [10] (safeArr arr)"

definition edited_points :: "jsstring \<Rightarrow> jsstring list" where
  "edited_points text = filter (\<lambda>x. x \<noteq> []) (map js_trim (split_nl text))"

text \<open>
  The text that the change handler reads is \<open>e.target.value\<close> of the text area, and a text
  area gives its value with the line breaks normalized: a carriage return with a line
  feed, and a carriage return alone, are given as one line feed.
\<close>

fun textarea_value :: "jsstring \<Rightarrow> jsstring" where
  "textarea_value [] = []"
| "textarea_value [c] = [if c = 13 then 10 else c]"
| "textarea_value (c # d # cs) =
     (if c = 13 \<and> d = 10 then 10 # textarea_value cs
      else (if c = 13 then 10 else c) # textarea_value (d # cs))"

text \<open>
  The edit cycle: the text area is given \<open>toLines(summary.points)\<close>, and the change
  handler, reading the value of the text area, stores the array of the edited points.
\<close>

definition edit_cycle :: "jsval \<Rightarrow> jsval option" where
  "edit_cycle points =
     map_option (\<lambda>text. JArr (map JStr (edited_points (textarea_value text)))) (toLines points)"

section \<open>Basic facts\<close>

lemma str_eq_iff [simp]: "str s = str t \<longleftrightarrow> s = t"
  by (simp add: str_def inj_map_eq_map inj_on_def)

lemma str_Nil_iff [simp]: "str s = [] \<longleftrightarrow> s = []"
  by (simp add: str_def)

lemma str_append: "str a @ str b = str (a @ b)"
  by (simp add: str_def)

text \<open>For evaluating an operation on a literal, code unit by code unit.\<close>

lemma str_simps: "str [] = []" "str (c # cs) = of_char c # str cs"
  by (simp_all add: str_def)

lemma opt_get_simps [simp]:
  "opt_get JUndefined k = JUndefined"
  "opt_get JNull k = JUndefined"
  "opt_get (JBool b) k = JUndefined"
  "opt_get (JNum n) k = JUndefined"
  "opt_get (JStr s) k = (if k = str ''length'' then JNum (digits (length s)) else JUndefined)"
  "opt_get (JArr xs) k = (if k = str ''length'' then JNum (digits (length xs)) else JUndefined)"
  "opt_get (JObj kvs) k = (case map_of kvs k of None \<Rightarrow> JUndefined | Some v \<Rightarrow> v)"
  by (simp_all add: opt_get_def)

lemma digits_not_Nil: "digits n \<noteq> []"
  by (subst digits.simps) simp

lemma last_digits: "last (digits n) = 48 + n mod 10"
  by (subst digits.simps) (simp add: digits_not_Nil)

text \<open>A length is truthy exactly when it is not zero.\<close>

lemma digits_not_NaN [simp]: "digits n \<noteq> str ''NaN''"
proof
  assume "digits n = str ''NaN''"
  then have "last (digits n) = 78"
    by (simp add: str_simps)
  then have "n mod 10 = 30"
    by (simp add: last_digits)
  moreover have "n mod 10 < 10"
    by simp
  ultimately show False
    by linarith
qed

lemma digits_zero_iff [simp]: "digits n = str ''0'' \<longleftrightarrow> n = 0"
proof (cases "n < 10")
  case True
  then have "digits n = [48 + n]"
    by (subst digits.simps) simp
  then show ?thesis
    by (simp add: str_simps)
next
  case False
  then have "digits n = digits (n div 10) @ [48 + n mod 10]"
    by (subst digits.simps) simp
  then have "length (digits n) \<ge> 2"
    using digits_not_Nil [of "n div 10"]
    by (cases "digits (n div 10)") simp_all
  with False show ?thesis
    by (auto simp add: str_simps)
qed

lemma truthy_length: "truthy (JNum (digits n)) \<longleftrightarrow> n \<noteq> 0"
  by simp

section \<open>Properties of the normalizer\<close>

text \<open>A default is truthy or the empty string, so applying it twice changes nothing.\<close>

lemma js_or_absorb: "js_or (js_or a b) b = js_or a b"
  by (simp add: js_or_def)

lemma is_action_record_normalize: "is_action_record (normalize_action_item a)"
  by (simp add: is_action_record_def normalize_action_item_def)

lemma normalize_action_item_idem:
  "normalize_action_item (normalize_action_item a) = normalize_action_item a"
  by (simp add: normalize_action_item_def opt_get_def js_or_absorb)

lemma opt_get_ensure_points:
  "opt_get (ensureSummaryShape v) (str ''points'') =
     (if isArray (opt_get v (str ''points'')) then opt_get v (str ''points'') else JArr [])"
  by (simp add: ensureSummaryShape_def opt_get_def)

lemma opt_get_ensure_decisions:
  "opt_get (ensureSummaryShape v) (str ''decisions'') =
     (if isArray (opt_get v (str ''decisions'')) then opt_get v (str ''decisions'') else JArr [])"
  by (simp add: ensureSummaryShape_def opt_get_def)

lemma opt_get_ensure_action_items:
  "opt_get (ensureSummaryShape v) (str ''action_items'') =
     (if isArray (opt_get v (str ''action_items''))
      then JArr (map normalize_action_item (elems (opt_get v (str ''action_items''))))
      else JArr [])"
  by (simp add: ensureSummaryShape_def opt_get_def)

lemma three_arrays_ensure: "three_arrays (ensureSummaryShape v)"
  by (simp add: three_arrays_def ensureSummaryShape_def)

lemma three_arrays_ensure_plain: "three_arrays (ensureSummaryShape_plain v)"
  by (simp add: three_arrays_def ensureSummaryShape_plain_def)

lemma summary_shape_ensure: "summary_shape (ensureSummaryShape v)"
  by (simp add: summary_shape_def three_arrays_ensure opt_get_ensure_action_items
      list_all_iff is_action_record_normalize)

lemma js_get_isArray: "isArray (opt_get v k) \<Longrightarrow> js_get v k = Some (opt_get v k)"
  by (cases "js_get v k") (simp_all add: opt_get_def)

lemma js_elems_isArray: "isArray v \<Longrightarrow> js_elems v = Some (elems v)"
  by (cases v) simp_all

lemma ensureSummaryShape_never_throws:
  "ensureSummaryShape_checked v = Some (ensureSummaryShape v)"
  by (simp add: ensureSummaryShape_checked_def ensureSummaryShape_def js_get_isArray
      js_elems_isArray)

lemma ensureSummaryShape_plain_never_throws:
  "ensureSummaryShape_plain_checked v = Some (ensureSummaryShape_plain v)"
  by (simp add: ensureSummaryShape_plain_checked_def ensureSummaryShape_plain_def js_get_isArray)

text \<open>
  C1. The normalizer never throws, and for every input value its result has the three fields
  \<open>points\<close>, \<open>decisions\<close> and \<open>action_items\<close>, each holding a sequence. In the current
  server every action item of the result is a record with exactly the fields \<open>owner\<close>,
  \<open>task\<close> and \<open>due\<close>; the older normalizer of \<^verbatim>\<open>src/server.js\<close> establishes the three
  sequences only. The elements are not type-checked: \<open>points\<close> and \<open>decisions\<close> are the
  input's own arrays, whatever they hold.
\<close>

theorem ensureSummaryShape_shape:
  "ensureSummaryShape_checked v = Some (ensureSummaryShape v)
   \<and> summary_shape (ensureSummaryShape v)
   \<and> ensureSummaryShape_plain_checked v = Some (ensureSummaryShape_plain v)
   \<and> three_arrays (ensureSummaryShape_plain v)
   \<and> opt_get (ensureSummaryShape v) (str ''points'') =
       (if isArray (opt_get v (str ''points'')) then opt_get v (str ''points'') else JArr [])
   \<and> opt_get (ensureSummaryShape v) (str ''decisions'') =
       (if isArray (opt_get v (str ''decisions'')) then opt_get v (str ''decisions'') else JArr [])"
  using ensureSummaryShape_never_throws ensureSummaryShape_plain_never_throws
    summary_shape_ensure three_arrays_ensure_plain opt_get_ensure_points
    opt_get_ensure_decisions by blast

text \<open>
  C1 as the specification states it fails: a point that is a number stays a number, so the
  result does not have strings for its points.
\<close>

theorem ensureSummaryShape_keeps_non_strings:
  "\<not> spec_summary_invariant (ensureSummaryShape (JObj [(str ''points'', JArr [JNum (str ''1'')])]))"
  by (simp add: spec_summary_invariant_def opt_get_ensure_points)

text \<open>
  C5. In the current server, when the input's \<open>action_items\<close> is a sequence the result's
  \<open>action_items\<close> has one record per element, in order, with \<open>owner\<close>, \<open>task\<close> and \<open>due\<close>
  taken from the element when truthy and replaced by \<open>"Unassigned"\<close>, \<open>""\<close> and \<open>""\<close>
  otherwise; when it is not a sequence the result's \<open>action_items\<close> is empty. The older
  normalizer of \<^verbatim>\<open>src/server.js\<close> returns a sequence of action items unchanged.
\<close>

theorem ensureSummaryShape_action_items:
  "opt_get (ensureSummaryShape v) (str ''action_items'') =
     (case opt_get v (str ''action_items'') of
        JArr items \<Rightarrow>
          JArr (map (\<lambda>a. JObj
            [(str ''owner'',
                if truthy (opt_get a (str ''owner'')) then opt_get a (str ''owner'')
                else JStr (str ''Unassigned'')),
             (str ''task'',
                if truthy (opt_get a (str ''task'')) then opt_get a (str ''task'') else JStr []),
             (str ''due'',
                if truthy (opt_get a (str ''due'')) then opt_get a (str ''due'') else JStr [])])
            items)
      | _ \<Rightarrow> JArr [])
   \<and> opt_get (ensureSummaryShape_plain v) (str ''action_items'') =
     (case opt_get v (str ''action_items'') of JArr items \<Rightarrow> JArr items | _ \<Rightarrow> JArr [])"
proof
  show "opt_get (ensureSummaryShape v) (str ''action_items'') =
     (case opt_get v (str ''action_items'') of
        JArr items \<Rightarrow>
          JArr (map (\<lambda>a. JObj
            [(str ''owner'',
                if truthy (opt_get a (str ''owner'')) then opt_get a (str ''owner'')
                else JStr (str ''Unassigned'')),
             (str ''task'',
                if truthy (opt_get a (str ''task'')) then opt_get a (str ''task'') else JStr []),
             (str ''due'',
                if truthy (opt_get a (str ''due'')) then opt_get a (str ''due'') else JStr [])])
            items)
      | _ \<Rightarrow> JArr [])"
    by (cases "opt_get v (str ''action_items'')")
      (simp_all add: opt_get_ensure_action_items normalize_action_item_def js_or_def)
  show "opt_get (ensureSummaryShape_plain v) (str ''action_items'') =
     (case opt_get v (str ''action_items'') of JArr items \<Rightarrow> JArr items | _ \<Rightarrow> JArr [])"
    by (cases "opt_get v (str ''action_items'')")
      (simp_all add: ensureSummaryShape_plain_def opt_get_def)
qed

text \<open>
  C5 as stated fails on the normalizer of \<^verbatim>\<open>src/server.js\<close>: an action item without
  fields is returned as it is, not as the record with the three defaults.
\<close>

theorem ensureSummaryShape_plain_keeps_items:
  "opt_get (ensureSummaryShape_plain (JObj [(str ''action_items'', JArr [JObj []])]))
       (str ''action_items'') = JArr [JObj []]
   \<and> JArr [JObj []] \<noteq>
       JArr [JObj [(str ''owner'', JStr (str ''Unassigned'')), (str ''task'', JStr []),
                   (str ''due'', JStr [])]]"
  by (simp add: ensureSummaryShape_plain_def opt_get_def)

text \<open>
  C6. The normalizer is idempotent: normalizing the result of a normalization gives that
  result again.
\<close>

theorem ensureSummaryShape_idempotent:
  "ensureSummaryShape (ensureSummaryShape v) = ensureSummaryShape v"
proof -
  have "ensureSummaryShape (ensureSummaryShape v) = JObj
     [(str ''points'',
         if isArray (opt_get (ensureSummaryShape v) (str ''points''))
         then opt_get (ensureSummaryShape v) (str ''points'') else JArr []),
      (str ''decisions'',
         if isArray (opt_get (ensureSummaryShape v) (str ''decisions''))
         then opt_get (ensureSummaryShape v) (str ''decisions'') else JArr []),
      (str ''action_items'',
         if isArray (opt_get (ensureSummaryShape v) (str ''action_items''))
         then JArr (map normalize_action_item
                (elems (opt_get (ensureSummaryShape v) (str ''action_items''))))
         else JArr [])]"
    by (rule ensureSummaryShape_def)
  also have "\<dots> = ensureSummaryShape v"
    unfolding opt_get_ensure_points opt_get_ensure_decisions opt_get_ensure_action_items
    by (simp add: ensureSummaryShape_def normalize_action_item_idem)
  finally show ?thesis .
qed

section \<open>Properties of POST /generate-summary\<close>

lemma js_get_body_field:
  "k \<noteq> str ''length'' \<Longrightarrow> js_get (js_or req (JObj [])) k = Some (opt_get req k)"
  by (cases req) (simp_all add: js_or_def)

lemma status_json_error [simp]: "status (json_error c m) = c"
  by (simp add: json_error_def)

lemma status_json_ok [simp]: "status (json_ok v) = 200"
  by (simp add: json_ok_def)

text \<open>
  C3. When \<open>transcript\<close> or \<open>instruction\<close> is missing or the empty string, the handler
  answers with status 400 and the error message "Transcript and instruction are
  required", whatever the configuration, and the language model is not called; the
  response is the error, not a summary, so the mock summarizer has not run either.
\<close>

theorem generate_summary_rejects_missing_fields:
  assumes "opt_get req (str ''transcript'') \<in> {JUndefined, JStr []}
           \<or> opt_get req (str ''instruction'') \<in> {JUndefined, JStr []}"
  shows "generate_summary cfg req =
           (\<lparr>status = 400,
             body = JObj [(str ''error'', JStr (str ''Transcript and instruction are required''))]\<rparr>,
            [])"
  using assms by (auto simp add: generate_summary_def js_get_body_field json_error_def)

text \<open>
  The request \<open>{transcript: "", instruction: "x"}\<close> of the specification, with a client
  configured and mock mode off.
\<close>

theorem generate_summary_rejects_empty_transcript:
  "generate_summary \<lparr>USE_MOCK = False, groq = Some (\<lambda>i t. LLM_parsed JNull)\<rparr>
     (JObj [(str ''transcript'', JStr []), (str ''instruction'', JStr (str ''x''))]) =
           (\<lparr>status = 400,
             body = JObj [(str ''error'', JStr (str ''Transcript and instruction are required''))]\<rparr>,
            [])"
  using generate_summary_rejects_missing_fields
    [of "JObj [(str ''transcript'', JStr []), (str ''instruction'', JStr (str ''x''))]"
        "\<lparr>USE_MOCK = False, groq = Some (\<lambda>i t. LLM_parsed JNull)\<rparr>"]
  by simp

lemma llm_path_calls:
  "i \<noteq> [] \<Longrightarrow> snd (llm_path c (Some call) (JStr t) (JStr i)) = [(i, t)]"
  by (simp add: llm_path_def split: llm_outcome.splits)

lemma generate_summary_mock:
  assumes "opt_get req (str ''transcript'') = JStr t" and "t \<noteq> []"
    and "opt_get req (str ''instruction'') = JStr i" and "i \<noteq> []"
    and "USE_MOCK cfg \<or> groq cfg = None"
  shows "generate_summary cfg req = (mock_response t, [])"
  using assms by (auto simp add: generate_summary_def js_get_body_field)

text \<open>
  C2. For a request whose transcript and instruction are non-empty strings: in the
  current server the mock summarizer answers (with status 200 and without a call to the
  language model) whenever the mock flag is on or no client is configured, and the
  language model is called, once, exactly when the flag is off and a client is
  configured. In the variant with explicit mock mode the mock summarizer answers when
  the flag is on; with the flag off and no client the answer is status 500,
  "GROQ_API_KEY not configured. Set USE_MOCK=true to test without LLM."; the language
  model is called, once, when the flag is off and a client is configured.
\<close>

theorem mock_selection:
  assumes "opt_get req (str ''transcript'') = JStr t" and "t \<noteq> []"
    and "opt_get req (str ''instruction'') = JStr i" and "i \<noteq> []"
  shows "(USE_MOCK cfg \<or> groq cfg = None \<longrightarrow>
            generate_summary cfg req = (mock_response t, []) \<and> status (mock_response t) = 200)
       \<and> (snd (generate_summary cfg req) \<noteq> [] \<longrightarrow> \<not> USE_MOCK cfg \<and> groq cfg \<noteq> None)
       \<and> (\<not> USE_MOCK cfg \<and> groq cfg \<noteq> None \<longrightarrow> snd (generate_summary cfg req) = [(i, t)])
       \<and> (USE_MOCK cfg \<longrightarrow>
            generate_summary_explicit cfg req =
              (json_ok (JObj [(str ''summary'', ensureSummaryShape (explicit_mock_candidate t))]), []))
       \<and> (\<not> USE_MOCK cfg \<and> groq cfg = None \<longrightarrow>
            generate_summary_explicit cfg req =
              (json_error 500 ''GROQ_API_KEY not configured. Set USE_MOCK=true to test without LLM.'', []))
       \<and> (\<not> USE_MOCK cfg \<and> groq cfg \<noteq> None \<longrightarrow>
            snd (generate_summary_explicit cfg req) = [(i, t)])"
  using assms
  by (auto simp add: generate_summary_def generate_summary_explicit_def js_get_body_field
      mock_response_def llm_path_calls)

text \<open>
  With the flag off and no client, the current server answers from the mock summarizer;
  with a client it calls the language model with the instruction and the transcript.
\<close>

theorem mock_selection_example:
  "generate_summary \<lparr>USE_MOCK = False, groq = None\<rparr>
     (JObj [(str ''transcript'', JStr (str ''Hi'')), (str ''instruction'', JStr (str ''go''))])
     = (mock_response (str ''Hi''), [])
   \<and> snd (generate_summary \<lparr>USE_MOCK = False, groq = Some (\<lambda>i t. LLM_parsed JNull)\<rparr>
       (JObj [(str ''transcript'', JStr (str ''Hi'')), (str ''instruction'', JStr (str ''go''))]))
     = [(str ''go'', str ''Hi'')]"
  using
    mock_selection
      [of "JObj [(str ''transcript'', JStr (str ''Hi'')), (str ''instruction'', JStr (str ''go''))]"
          "str ''Hi''" "str ''go''" "\<lparr>USE_MOCK = False, groq = None\<rparr>"]
    mock_selection
      [of "JObj [(str ''transcript'', JStr (str ''Hi'')), (str ''instruction'', JStr (str ''go''))]"
          "str ''Hi''" "str ''go''" "\<lparr>USE_MOCK = False, groq = Some (\<lambda>i t. LLM_parsed JNull)\<rparr>"]
  by simp

text \<open>
  C2 as stated fails on the variant with explicit mock mode: with the flag off and no
  credential a valid request is answered with status 500, not by the mock summarizer.
\<close>

theorem explicit_mode_needs_credential:
  "generate_summary_explicit \<lparr>USE_MOCK = False, groq = None\<rparr>
     (JObj [(str ''transcript'', JStr (str ''Line one. Line two.'')),
            (str ''instruction'', JStr (str ''summarize''))])
   = (\<lparr>status = 500,
       body = JObj [(str ''error'',
         JStr (str ''GROQ_API_KEY not configured. Set USE_MOCK=true to test without LLM.''))]\<rparr>,
      [])"
  by (simp add: generate_summary_explicit_def js_or_def json_error_def)

section \<open>Properties of the split\<close>

lemma is_ws_10 [simp]: "is_ws 10"
  by (simp add: is_ws_def)

lemma is_ws_13 [simp]: "is_ws 13"
  by (simp add: is_ws_def)

lemma sentence_end_not_nl [simp]: "\<not> is_sentence_end 10" "\<not> is_sentence_end 13"
  by (simp_all add: is_sentence_end_def)

lemma takeWhile_Nil_iff: "takeWhile P xs = [] \<longleftrightarrow> \<not> list_ex P (take 1 xs)"
  by (cases xs) simp_all

text \<open>The matcher matches exactly where a boundary begins.\<close>

lemma boundary_at_match_sep: "boundary_at s \<longleftrightarrow> match_sep s \<noteq> 0"
proof (cases s)
  case Nil
  then show ?thesis by (simp add: boundary_at_def)
next
  case (Cons c cs)
  then show ?thesis
    by (cases cs) (auto simp add: boundary_at_def)
qed

lemma js_split_from_scan:
  "no_boundary_inside f ctx \<Longrightarrow> js_split_from acc (f @ ctx) = js_split_from (acc @ f) ctx"
proof (induction f arbitrary: acc)
  case Nil
  then show ?case by simp
next
  case (Cons c f)
  from Cons.prems have m: "match_sep (c # f @ ctx) = 0" and r: "no_boundary_inside f ctx"
    by (simp_all add: boundary_at_match_sep del: match_sep.simps)
  have "js_split_from acc ((c # f) @ ctx) = js_split_from (acc @ [c]) (f @ ctx)"
    using m by (simp del: match_sep.simps)
  also have "\<dots> = js_split_from ((acc @ [c]) @ f) ctx"
    using r by (rule Cons.IH)
  finally show ?case by simp
qed

lemma match_sep_boundary:
  assumes "is_boundary b"
    and "list_ex is_sentence_end (take 1 b) \<longrightarrow> \<not> list_ex is_ws (take 1 r)"
  shows "match_sep (b @ r) = length b \<and> b \<noteq> []"
proof -
  from assms(1) consider "b = [10]" | "b = [13, 10]"
    | c w where "b = c # w" "is_sentence_end c" "w \<noteq> []" "list_all is_ws w"
    by (auto simp add: is_boundary_def split: list.splits)
  then show ?thesis
  proof cases
    case 1
    then show ?thesis by simp
  next
    case 2
    then show ?thesis by simp
  next
    case 3
    from 3(2) have c: "c \<noteq> 10" "c \<noteq> 13"
      by (auto simp add: is_sentence_end_def)
    from assms(2) 3 have "takeWhile is_ws r = []"
      by (simp add: takeWhile_Nil_iff)
    with 3(4) have tw: "takeWhile is_ws (w @ r) = w"
      by (simp add: takeWhile_append2 list_all_iff)
    show ?thesis
      using 3 c tw by simp
  qed
qed

text \<open>A split in the specification's words is the split the code computes.\<close>

lemma cuts_js_split_from:
  "cuts fs bs \<Longrightarrow> js_split_from acc (weave fs bs) = (acc @ hd fs) # tl fs"
proof (induction fs bs arbitrary: acc rule: cuts.induct)
  case (1 bs)
  then show ?case by simp
next
  case (2 f bs)
  then have "no_boundary_inside f []" and "bs = []" by simp_all
  from js_split_from_scan [OF this(1), of acc] this(2) show ?case by simp
next
  case (3 f g fs)
  then show ?case by simp
next
  case (4 f g fs b bs)
  let ?r = "weave (g # fs) bs"
  from "4.prems" have b: "is_boundary b"
    and mx: "list_ex is_sentence_end (take 1 b) \<longrightarrow> \<not> list_ex is_ws (take 1 ?r)"
    and nb: "no_boundary_inside f (b @ ?r)" and rest: "cuts (g # fs) bs"
    by simp_all
  from match_sep_boundary [OF b mx] have m: "match_sep (b @ ?r) = length b" and ne: "b \<noteq> []"
    by simp_all
  from ne obtain c cs where bc: "b @ ?r = c # cs"
    by (cases b) auto
  have "js_split_from acc (weave (f # g # fs) (b # bs)) = js_split_from (acc @ f) (b @ ?r)"
    using js_split_from_scan [OF nb, of acc] by simp
  also have "\<dots> = (acc @ f) # js_split_from [] (drop (length b) (b @ ?r))"
    using m ne unfolding bc by (simp del: match_sep.simps)
  also have "\<dots> = (acc @ f) # js_split_from [] ?r"
    by simp
  also have "\<dots> = (acc @ f) # ([] @ hd (g # fs)) # tl (g # fs)"
    using "4.IH" [OF rest, of "[]"] by simp
  finally show ?case by simp
qed

lemma no_boundary_inside_snoc:
  "no_boundary_inside (a @ [c]) ctx \<longleftrightarrow> no_boundary_inside a (c # ctx) \<and> \<not> boundary_at (c # ctx)"
  by (induction a) auto

lemma js_split_from_not_Nil: "js_split_from frag s \<noteq> []"
  by (induction frag s rule: js_split_from.induct) simp_all

lemma take_match_sep:
  assumes "match_sep (c # cs) \<noteq> 0"
  shows "take (match_sep (c # cs)) (c # cs) = [10] \<or>
     take (match_sep (c # cs)) (c # cs) = [13, 10] \<or>
     (is_sentence_end c \<and> takeWhile is_ws cs \<noteq> [] \<and>
      take (match_sep (c # cs)) (c # cs) = c # takeWhile is_ws cs \<and>
      drop (match_sep (c # cs)) (c # cs) = dropWhile is_ws cs)"
proof -
  have tw: "take (length (takeWhile is_ws cs)) cs = takeWhile is_ws cs"
    by (simp add: takeWhile_eq_take [symmetric])
  have dw: "drop (length (takeWhile is_ws cs)) cs = dropWhile is_ws cs"
    by (simp add: dropWhile_eq_drop [symmetric])
  have cr: "take 1 cs = [10] \<Longrightarrow> take 2 (13 # cs) = [13, 10]"
    by (cases cs) simp_all
  show ?thesis
    using assms tw dw cr by (auto split: if_splits)
qed

lemma no_match_after_dropWhile: "\<not> list_ex P (take 1 (dropWhile P xs))"
  by (induction xs) simp_all

lemma cut_take_match_sep:
  assumes "match_sep (c # cs) \<noteq> 0"
  shows "is_boundary (take (match_sep (c # cs)) (c # cs))
     \<and> (list_ex is_sentence_end (take 1 (take (match_sep (c # cs)) (c # cs)))
        \<longrightarrow> \<not> list_ex is_ws (take 1 (drop (match_sep (c # cs)) (c # cs))))"
proof -
  from take_match_sep [OF assms] consider
      "take (match_sep (c # cs)) (c # cs) = [10]"
    | "take (match_sep (c # cs)) (c # cs) = [13, 10]"
    | "is_sentence_end c" "takeWhile is_ws cs \<noteq> []"
      "take (match_sep (c # cs)) (c # cs) = c # takeWhile is_ws cs"
      "drop (match_sep (c # cs)) (c # cs) = dropWhile is_ws cs"
    by blast
  then show ?thesis
  proof cases
    case 1
    then show ?thesis by (simp add: is_boundary_def)
  next
    case 2
    then show ?thesis by (simp add: is_boundary_def)
  next
    case 3
    have "\<not> list_ex is_ws (take 1 (dropWhile is_ws cs))"
      by (rule no_match_after_dropWhile)
    moreover have "is_boundary (c # takeWhile is_ws cs)"
      using 3(1,2) by (auto simp add: is_boundary_def list_all_iff dest: set_takeWhileD)
    ultimately show ?thesis
      using 3(3,4) by (simp only:) simp
  qed
qed

lemma js_split_from_cuts:
  "no_boundary_inside acc s \<Longrightarrow>
     \<exists>bs. weave (js_split_from acc s) bs = acc @ s \<and> cuts (js_split_from acc s) bs"
proof (induction acc s rule: js_split_from.induct)
  case (1 frag)
  then have "weave (js_split_from frag []) [] = frag @ [] \<and> cuts (js_split_from frag []) []"
    by simp
  then show ?case by blast
next
  case (2 frag c cs)
  show ?case
  proof (cases "match_sep (c # cs) = 0")
    case True
    then have "\<not> boundary_at (c # cs)"
      by (simp add: boundary_at_match_sep del: match_sep.simps)
    with "2.prems" have "no_boundary_inside (frag @ [c]) cs"
      by (simp add: no_boundary_inside_snoc)
    from "2.IH"(1) [OF True this] True show ?thesis
      by (simp del: match_sep.simps)
  next
    case False
    let ?n = "match_sep (c # cs)"
    let ?b = "take ?n (c # cs)"
    let ?r = "drop ?n (c # cs)"
    have "no_boundary_inside [] ?r" by simp
    from "2.IH"(2) [OF False this] obtain bs where
      bs: "weave (js_split_from [] ?r) bs = ?r" "cuts (js_split_from [] ?r) bs"
      by auto
    obtain g fs where gf: "js_split_from [] ?r = g # fs"
      using js_split_from_not_Nil [of "[]" ?r] by (cases "js_split_from [] ?r") auto
    have sp: "js_split_from frag (c # cs) = frag # g # fs"
      using False gf by (simp del: match_sep.simps)
    have w: "weave (g # fs) bs = ?r"
      using bs(1) gf by simp
    have "weave (frag # g # fs) (?b # bs) = frag @ c # cs"
      by (simp add: w del: match_sep.simps)
    moreover have "cuts (frag # g # fs) (?b # bs)"
      using cut_take_match_sep [OF False] bs(2) gf "2.prems"
      by (simp add: w del: match_sep.simps)
    ultimately show ?thesis
      unfolding sp by blast
  qed
qed

lemma split_spec:
  "(\<exists>bs. weave fs bs = t \<and> cuts fs bs) \<longleftrightarrow> fs = js_split t"
proof
  assume "\<exists>bs. weave fs bs = t \<and> cuts fs bs"
  then obtain bs where w: "weave fs bs = t" and c: "cuts fs bs" by blast
  from c have "fs \<noteq> []" by (cases fs) simp_all
  with cuts_js_split_from [OF c, of "[]"] w show "fs = js_split t"
    by (simp add: js_split_def)
next
  assume "fs = js_split t"
  with js_split_from_cuts [of "[]" t] show "\<exists>bs. weave fs bs = t \<and> cuts fs bs"
    by (simp add: js_split_def)
qed

section \<open>Properties of trimming\<close>

lemma js_trim_Nil [simp]: "js_trim [] = []"
  by (simp add: js_trim_def)

lemma dropWhile_prefix: "list_all P w \<Longrightarrow> dropWhile P (w @ s) = dropWhile P s"
  by (induction w) simp_all

lemma js_trim_ws_front: "list_all is_ws w \<Longrightarrow> js_trim (w @ s) = js_trim s"
  by (simp add: js_trim_def dropWhile_prefix)

lemma js_trim_all_ws: "list_all is_ws s \<Longrightarrow> js_trim s = []"
  using js_trim_ws_front [of s "[]"] by simp

lemma js_trim_ws_back:
  assumes "list_all is_ws w"
  shows "js_trim (s @ w) = js_trim s"
proof (cases "list_all is_ws s")
  case True
  with assms have "list_all is_ws (s @ w)" by simp
  then show ?thesis using True by (simp add: js_trim_all_ws)
next
  case False
  then obtain x where x: "x \<in> set s" "\<not> is_ws x"
    by (auto simp add: list_all_iff)
  then have d: "dropWhile is_ws (s @ w) = dropWhile is_ws s @ w"
    by (simp add: dropWhile_append1)
  from assms have "list_all is_ws (rev w)" by (simp add: list_all_iff)
  then have "dropWhile is_ws (rev w @ rev (dropWhile is_ws s)) = dropWhile is_ws (rev (dropWhile is_ws s))"
    by (rule dropWhile_prefix)
  then show ?thesis
    by (simp add: js_trim_def d)
qed

lemma trimmed_js_trim_self:
  assumes "trimmed p"
  shows "js_trim p = p"
proof (cases p)
  case Nil
  then show ?thesis by simp
next
  case (Cons c cs)
  with assms have h: "\<not> is_ws c" and l: "\<not> is_ws (last p)"
    by (simp_all add: trimmed_def)
  from h Cons have d: "dropWhile is_ws p = p" by simp
  from Cons obtain a r where r: "rev p = a # r"
    by (cases "rev p") simp_all
  have "hd (rev p) = last p" by (rule hd_rev)
  with r l have "\<not> is_ws a" by simp
  then have "dropWhile is_ws (a # r) = a # r" by simp
  then have "dropWhile is_ws (rev p) = rev p" by (simp only: r)
  with d show ?thesis by (simp add: js_trim_def)
qed

lemma last_dropWhile: "dropWhile P xs \<noteq> [] \<Longrightarrow> last (dropWhile P xs) = last xs"
  by (induction xs) auto

lemma trimmed_js_trim: "trimmed (js_trim s)"
proof (cases "js_trim s = []")
  case True
  then show ?thesis by (simp add: trimmed_def)
next
  case False
  let ?a = "dropWhile is_ws s"
  let ?b = "dropWhile is_ws (rev ?a)"
  from False have b: "?b \<noteq> []" by (simp add: js_trim_def)
  have a: "?a \<noteq> []"
  proof
    assume "?a = []"
    then have "?b = []" by (simp only: rev.simps dropWhile.simps)
    with b show False by simp
  qed
  have "hd (js_trim s) = last ?b"
    using b by (simp add: js_trim_def hd_rev)
  also have "\<dots> = last (rev ?a)"
    using b by (rule last_dropWhile)
  also have "\<dots> = hd ?a"
    using a by (simp add: last_rev)
  finally have "\<not> is_ws (hd (js_trim s))"
    using hd_dropWhile [OF a] by simp
  moreover have "last (js_trim s) = hd ?b"
    using b by (simp add: js_trim_def last_rev)
  then have "\<not> is_ws (last (js_trim s))"
    using hd_dropWhile [OF b] by simp
  ultimately show ?thesis by (simp add: trimmed_def)
qed

lemma js_trim_decomposition:
  "\<exists>w1 w2. s = w1 @ js_trim s @ w2 \<and> list_all is_ws w1 \<and> list_all is_ws w2"
proof -
  let ?a = "dropWhile is_ws s"
  let ?w1 = "takeWhile is_ws s"
  let ?w2 = "rev (takeWhile is_ws (rev ?a))"
  have "rev (rev ?a) = rev (takeWhile is_ws (rev ?a) @ dropWhile is_ws (rev ?a))"
    by (simp only: takeWhile_dropWhile_id)
  then have "?a = js_trim s @ ?w2"
    by (simp only: rev_rev_ident rev_append js_trim_def)
  then have "s = ?w1 @ js_trim s @ ?w2"
    using takeWhile_dropWhile_id [of is_ws s] by simp
  moreover have "list_all is_ws ?w1"
    by (auto simp add: list_all_iff dest: set_takeWhileD)
  moreover have "list_all is_ws ?w2"
    by (auto simp add: list_all_iff dest: set_takeWhileD)
  ultimately show ?thesis by blast
qed

lemma trims_to_iff:
  "trims_to f p \<longleftrightarrow>
     trimmed p \<and> (\<exists>w1 w2. f = w1 @ p @ w2 \<and> list_all is_ws w1 \<and> list_all is_ws w2)"
proof -
  have "(\<exists>k \<in> set [0..<Suc (length f)]. list_all is_ws (take k f) \<and> take (length p) (drop k f) = p
                      \<and> list_all is_ws (drop (k + length p) f))
        \<longleftrightarrow> (\<exists>w1 w2. f = w1 @ p @ w2 \<and> list_all is_ws w1 \<and> list_all is_ws w2)"
  proof
    assume "\<exists>k \<in> set [0..<Suc (length f)]. list_all is_ws (take k f) \<and> take (length p) (drop k f) = p
                      \<and> list_all is_ws (drop (k + length p) f)"
    then obtain k where k: "list_all is_ws (take k f)" "take (length p) (drop k f) = p"
      "list_all is_ws (drop (k + length p) f)" by blast
    have "f = take k f @ take (length p) (drop k f) @ drop (length p) (drop k f)"
      by (simp only: append_take_drop_id)
    then have "f = take k f @ p @ drop (k + length p) f"
      by (simp only: k(2) drop_drop add.commute [of "length p" k])
    with k(1,3) show "\<exists>w1 w2. f = w1 @ p @ w2 \<and> list_all is_ws w1 \<and> list_all is_ws w2"
      by blast
  next
    assume "\<exists>w1 w2. f = w1 @ p @ w2 \<and> list_all is_ws w1 \<and> list_all is_ws w2"
    then obtain w1 w2 where w: "f = w1 @ p @ w2" "list_all is_ws w1" "list_all is_ws w2"
      by blast
    then have "length w1 \<in> set [0..<Suc (length f)]"
      and "list_all is_ws (take (length w1) f)"
      and "take (length p) (drop (length w1) f) = p"
      and "list_all is_ws (drop (length w1 + length p) f)"
      by simp_all
    then show "\<exists>k \<in> set [0..<Suc (length f)]. list_all is_ws (take k f) \<and> take (length p) (drop k f) = p
                      \<and> list_all is_ws (drop (k + length p) f)"
      by blast
  qed
  then show ?thesis
    by (simp add: trims_to_def list_ex_iff)
qed

text \<open>Trimming in the specification's words is the trimming the code computes.\<close>

lemma trims_to_js_trim: "trims_to f p \<longleftrightarrow> p = js_trim f"
proof
  assume "trims_to f p"
  then obtain w1 w2 where t: "trimmed p" and w: "f = w1 @ p @ w2" "list_all is_ws w1" "list_all is_ws w2"
    by (auto simp add: trims_to_iff)
  have "js_trim f = js_trim (p @ w2)"
    using w(1,2) by (simp add: js_trim_ws_front)
  also have "\<dots> = js_trim p"
    using w(3) by (rule js_trim_ws_back)
  also have "\<dots> = p"
    using t by (rule trimmed_js_trim_self)
  finally show "p = js_trim f" by simp
next
  assume "p = js_trim f"
  then show "trims_to f p"
    using trimmed_js_trim [of f] js_trim_decomposition [of f]
    by (simp add: trims_to_iff)
qed

lemma list_all2_trims_to: "list_all2 trims_to fs ts \<longleftrightarrow> ts = map js_trim fs"
proof (induction fs arbitrary: ts)
  case Nil
  then show ?case by auto
next
  case (Cons f fs)
  then show ?case
    by (cases ts) (auto simp add: trims_to_js_trim)
qed

text \<open>
  The lines of the mock summarizer are the trimmed fragments that are not empty, for the
  one split and the one trimming that the specification describes.
\<close>

lemma mock_lines_spec:
  assumes "weave fs bs = t" and "cuts fs bs" and "list_all2 trims_to fs ts"
  shows "mock_lines t = filter (\<lambda>s. s \<noteq> []) ts"
proof -
  from assms(1,2) have "fs = js_split t"
    using split_spec [of fs t] by blast
  moreover from assms(3) have "ts = map js_trim fs"
    by (simp add: list_all2_trims_to)
  ultimately show ?thesis
    by (simp add: mock_lines_def)
qed

lemma mock_lines_spec_ex:
  "\<exists>fs bs ts. weave fs bs = t \<and> cuts fs bs \<and> list_all2 trims_to fs ts"
proof -
  obtain bs where "weave (js_split t) bs = t" "cuts (js_split t) bs"
    using split_spec [of "js_split t" t] by blast
  moreover have "list_all2 trims_to (js_split t) (map js_trim (js_split t))"
    by (simp add: list_all2_trims_to)
  ultimately show ?thesis by blast
qed

section \<open>When the mock summarizer has points\<close>

lemma has_text_ws_prefix: "list_all is_ws w \<Longrightarrow> has_text (w @ r) = has_text r"
  by (induction w) simp_all

lemma no_text_in_ws: "list_all is_ws t \<Longrightarrow> \<not> has_text t"
  using has_text_ws_prefix [of t "[]"] by simp

lemma has_text_after_match:
  assumes "match_sep (c # cs) \<noteq> 0"
  shows "has_text (c # cs) = has_text (drop (match_sep (c # cs)) (c # cs))"
proof -
  from take_match_sep [OF assms] consider
      "take (match_sep (c # cs)) (c # cs) = [10]"
    | "take (match_sep (c # cs)) (c # cs) = [13, 10]"
    | "is_sentence_end c" "takeWhile is_ws cs \<noteq> []"
      "drop (match_sep (c # cs)) (c # cs) = dropWhile is_ws cs"
    by blast
  then show ?thesis
  proof cases
    case 1
    have "c # cs = take (match_sep (c # cs)) (c # cs) @ drop (match_sep (c # cs)) (c # cs)"
      by (simp only: append_take_drop_id)
    then have "c # cs = [10] @ drop (match_sep (c # cs)) (c # cs)"
      by (simp only: 1)
    then have "has_text (c # cs) = has_text ([10] @ drop (match_sep (c # cs)) (c # cs))"
      by (rule arg_cong)
    moreover have "list_all is_ws [10]" by simp
    ultimately show ?thesis
      by (simp only: has_text_ws_prefix)
  next
    case 2
    have "c # cs = take (match_sep (c # cs)) (c # cs) @ drop (match_sep (c # cs)) (c # cs)"
      by (simp only: append_take_drop_id)
    then have "c # cs = [13, 10] @ drop (match_sep (c # cs)) (c # cs)"
      by (simp only: 2)
    then have "has_text (c # cs) = has_text ([13, 10] @ drop (match_sep (c # cs)) (c # cs))"
      by (rule arg_cong)
    moreover have "list_all is_ws [13, 10]" by simp
    ultimately show ?thesis
      by (simp only: has_text_ws_prefix)
  next
    case 3
    from 3(2) have "list_ex is_ws (take 1 cs)"
      by (simp add: takeWhile_Nil_iff)
    with 3(1) have "has_text (c # cs) = has_text cs"
      by simp
    also have "\<dots> = has_text (takeWhile is_ws cs @ dropWhile is_ws cs)"
      by simp
    also have "\<dots> = has_text (dropWhile is_ws cs)"
      by (rule has_text_ws_prefix) (auto simp add: list_all_iff dest: set_takeWhileD)
    finally show ?thesis
      by (simp only: 3(3))
  qed
qed

lemma js_split_from_has_text:
  "(\<exists>f \<in> set (js_split_from acc s). \<not> list_all is_ws f) \<longleftrightarrow> \<not> list_all is_ws acc \<or> has_text s"
proof (induction acc s rule: js_split_from.induct)
  case (1 frag)
  then show ?case by simp
next
  case (2 frag c cs)
  show ?case
  proof (cases "match_sep (c # cs) = 0")
    case True
    then have "\<not> boundary_at (c # cs)"
      by (simp add: boundary_at_match_sep del: match_sep.simps)
    then have nb: "\<not> (is_sentence_end c \<and> list_ex is_ws (take 1 cs))"
      by (auto simp add: boundary_at_def)
    have "(\<exists>f \<in> set (js_split_from frag (c # cs)). \<not> list_all is_ws f)
          \<longleftrightarrow> (\<exists>f \<in> set (js_split_from (frag @ [c]) cs). \<not> list_all is_ws f)"
      using True by (simp del: match_sep.simps)
    also have "\<dots> \<longleftrightarrow> \<not> list_all is_ws (frag @ [c]) \<or> has_text cs"
      using "2.IH"(1) [OF True] .
    also have "\<dots> \<longleftrightarrow> \<not> list_all is_ws frag \<or> has_text (c # cs)"
      using nb by auto
    finally show ?thesis .
  next
    case False
    have "(\<exists>f \<in> set (js_split_from frag (c # cs)). \<not> list_all is_ws f)
          \<longleftrightarrow> \<not> list_all is_ws frag
              \<or> (\<exists>f \<in> set (js_split_from [] (drop (match_sep (c # cs)) (c # cs))). \<not> list_all is_ws f)"
      using False by (simp del: match_sep.simps)
    also have "\<dots> \<longleftrightarrow> \<not> list_all is_ws frag \<or> has_text (drop (match_sep (c # cs)) (c # cs))"
      using "2.IH"(2) [OF False] by simp
    also have "\<dots> \<longleftrightarrow> \<not> list_all is_ws frag \<or> has_text (c # cs)"
      using has_text_after_match [OF False] by simp
    finally show ?thesis .
  qed
qed

lemma js_trim_Nil_iff: "js_trim s = [] \<longleftrightarrow> list_all is_ws s"
proof
  assume e: "js_trim s = []"
  from js_trim_decomposition [of s] obtain w1 w2 where
    "s = w1 @ js_trim s @ w2" "list_all is_ws w1" "list_all is_ws w2" by blast
  with e have "s = w1 @ w2" by simp
  then show "list_all is_ws s"
    using \<open>list_all is_ws w1\<close> \<open>list_all is_ws w2\<close> by simp
next
  assume "list_all is_ws s"
  then show "js_trim s = []" by (rule js_trim_all_ws)
qed

lemma mock_lines_has_text: "mock_lines t \<noteq> [] \<longleftrightarrow> has_text t"
proof -
  have "mock_lines t \<noteq> [] \<longleftrightarrow> (\<exists>f \<in> set (js_split t). js_trim f \<noteq> [])"
    by (auto simp add: mock_lines_def filter_empty_conv)
  also have "\<dots> \<longleftrightarrow> (\<exists>f \<in> set (js_split_from [] t). \<not> list_all is_ws f)"
    by (simp add: js_split_def js_trim_Nil_iff)
  also have "\<dots> \<longleftrightarrow> has_text t"
    using js_split_from_has_text [of "[]" t] by simp
  finally show ?thesis .
qed

section \<open>Properties of the mock summarizer\<close>

lemma mock_candidate_normal: "ensureSummaryShape (mock_candidate t) = mock_candidate t"
  by (simp add: ensureSummaryShape_def mock_candidate_def normalize_action_item_def action_item_def
      js_or_def)

lemma mock_candidate_plain: "ensureSummaryShape_plain (mock_candidate t) = mock_candidate t"
  by (simp add: ensureSummaryShape_plain_def mock_candidate_def)

lemma mock_candidate_points:
  "opt_get (mock_candidate t) (str ''points'') = JArr (map JStr (take mock_points_limit (mock_lines t)))"
  by (simp add: mock_candidate_def)

lemma mock_candidate_invariant: "spec_summary_invariant (mock_candidate t)"
  by (simp add: spec_summary_invariant_def summary_shape_def three_arrays_def mock_candidate_def
      is_action_record_def action_item_def list_all_iff)

lemma body_mock_response:
  "opt_get (body (mock_response t)) (str ''summary'') = mock_candidate t"
  by (simp add: mock_response_def json_ok_def mock_candidate_normal)

text \<open>
  A transcript with white space at both ends, an empty line and eight sentences, cut and
  trimmed as the specification describes.
\<close>

lemma example_cut:
  "weave [str '' A'', str ''B'', [], str ''C'', str ''D'', str ''E'', str ''F'', str ''G'', str ''H '']
         [str ''. '', [10], [10], str ''. '', str ''.  '', str ''? '', str ''! '', str ''. '']
     = str '' A. B'' @ [10, 10] @ str ''C. D.  E? F! G. H ''
   \<and> cuts [str '' A'', str ''B'', [], str ''C'', str ''D'', str ''E'', str ''F'', str ''G'', str ''H '']
         [str ''. '', [10], [10], str ''. '', str ''.  '', str ''? '', str ''! '', str ''. '']
   \<and> list_all2 trims_to
         [str '' A'', str ''B'', [], str ''C'', str ''D'', str ''E'', str ''F'', str ''G'', str ''H '']
         [str ''A'', str ''B'', [], str ''C'', str ''D'', str ''E'', str ''F'', str ''G'', str ''H'']"
  by (simp add: str_simps boundary_at_def is_boundary_def is_ws_def is_sentence_end_def
      trims_to_def trimmed_def upt_rec [of 0] upt_rec [of 1] upt_rec [of 2] upt_rec [of 3])

text \<open>
  C4. In mock mode, for every transcript string, the points of the response are computed
  as the specification says. The transcript can be cut into fragments at newline
  boundaries and at sentence-ending punctuation followed by white space, and every
  fragment trimmed; and whenever fragments, the boundaries between them and their
  trimmed forms are such a cut of the transcript, the points are the first 6 of the
  trimmed fragments that are not empty. The normalizer of either server leaves these
  points as they are, and the bound 6 is the constant of the source, between 4 and 8.
\<close>

theorem mock_points_pipeline:
  assumes "opt_get req (str ''transcript'') = JStr t" and "t \<noteq> []"
    and "opt_get req (str ''instruction'') = JStr i" and "i \<noteq> []"
    and "USE_MOCK cfg \<or> groq cfg = None"
  shows "(\<exists>fs bs ts. weave fs bs = t \<and> cuts fs bs \<and> list_all2 trims_to fs ts)
       \<and> (\<forall>fs bs ts. weave fs bs = t \<and> cuts fs bs \<and> list_all2 trims_to fs ts \<longrightarrow>
            opt_get (opt_get (body (fst (generate_summary cfg req))) (str ''summary'')) (str ''points'')
              = JArr (map JStr (take 6 (filter (\<lambda>s. s \<noteq> []) ts)))
            \<and> opt_get (ensureSummaryShape_plain (mock_candidate t)) (str ''points'')
              = JArr (map JStr (take 6 (filter (\<lambda>s. s \<noteq> []) ts))))
       \<and> mock_points_limit = 6 \<and> 4 \<le> mock_points_limit \<and> mock_points_limit \<le> 8"
proof (intro conjI allI impI)
  show "\<exists>fs bs ts. weave fs bs = t \<and> cuts fs bs \<and> list_all2 trims_to fs ts"
    by (rule mock_lines_spec_ex)
  show "mock_points_limit = 6" and "4 \<le> mock_points_limit" and "mock_points_limit \<le> 8"
    by (simp_all add: mock_points_limit_def)
next
  fix fs bs ts
  assume "weave fs bs = t \<and> cuts fs bs \<and> list_all2 trims_to fs ts"
  then have l: "mock_lines t = filter (\<lambda>s. s \<noteq> []) ts"
    using mock_lines_spec [of fs bs t ts] by blast
  show "opt_get (opt_get (body (fst (generate_summary cfg req))) (str ''summary'')) (str ''points'')
          = JArr (map JStr (take 6 (filter (\<lambda>s. s \<noteq> []) ts)))"
    by (simp add: generate_summary_mock [OF assms] body_mock_response mock_candidate_points l
        mock_points_limit_def)
  show "opt_get (ensureSummaryShape_plain (mock_candidate t)) (str ''points'')
          = JArr (map JStr (take 6 (filter (\<lambda>s. s \<noteq> []) ts)))"
    by (simp add: mock_candidate_plain mock_candidate_points l mock_points_limit_def)
qed

text \<open>
  The transcript \<open>" A. B\n\nC. D.  E? F! G. H "\<close>: its fragments are trimmed, the empty
  line between \<open>B\<close> and \<open>C\<close> is discarded, and of the eight sentences the first six are the
  points.
\<close>

theorem mock_points_pipeline_example:
  "opt_get (opt_get (body (fst (generate_summary \<lparr>USE_MOCK = True, groq = None\<rparr>
       (JObj [(str ''transcript'', JStr (str '' A. B'' @ [10, 10] @ str ''C. D.  E? F! G. H '')),
              (str ''instruction'', JStr (str ''summarize''))])))) (str ''summary'')) (str ''points'')
     = JArr [JStr (str ''A''), JStr (str ''B''), JStr (str ''C''), JStr (str ''D''), JStr (str ''E''),
             JStr (str ''F'')]"
proof -
  let ?req = "JObj [(str ''transcript'', JStr (str '' A. B'' @ [10, 10] @ str ''C. D.  E? F! G. H '')),
                    (str ''instruction'', JStr (str ''summarize''))]"
  let ?fs = "[str '' A'', str ''B'', [], str ''C'', str ''D'', str ''E'', str ''F'', str ''G'', str ''H '']"
  let ?bs = "[str ''. '', [10], [10], str ''. '', str ''.  '', str ''? '', str ''! '', str ''. '']"
  let ?ts = "[str ''A'', str ''B'', [], str ''C'', str ''D'', str ''E'', str ''F'', str ''G'', str ''H'']"
  have "\<forall>fs bs ts. weave fs bs = str '' A. B'' @ [10, 10] @ str ''C. D.  E? F! G. H ''
            \<and> cuts fs bs \<and> list_all2 trims_to fs ts \<longrightarrow>
          opt_get (opt_get (body (fst (generate_summary \<lparr>USE_MOCK = True, groq = None\<rparr> ?req)))
              (str ''summary'')) (str ''points'')
            = JArr (map JStr (take 6 (filter (\<lambda>s. s \<noteq> []) ts)))
          \<and> opt_get (ensureSummaryShape_plain
                (mock_candidate (str '' A. B'' @ [10, 10] @ str ''C. D.  E? F! G. H ''))) (str ''points'')
            = JArr (map JStr (take 6 (filter (\<lambda>s. s \<noteq> []) ts)))"
    using mock_points_pipeline
      [of ?req "str '' A. B'' @ [10, 10] @ str ''C. D.  E? F! G. H ''" "str ''summarize''"
          "\<lparr>USE_MOCK = True, groq = None\<rparr>"]
    by simp
  then have "opt_get (opt_get (body (fst (generate_summary \<lparr>USE_MOCK = True, groq = None\<rparr> ?req)))
              (str ''summary'')) (str ''points'')
            = JArr (map JStr (take 6 (filter (\<lambda>s. s \<noteq> []) ?ts)))"
    using example_cut by blast
  then show ?thesis
    by simp
qed

text \<open>
  C8. In mock mode, for every request with non-empty transcript and instruction strings,
  the handler answers 200, without any external call, with a summary that is a function
  of the transcript alone. Whenever fragments, boundaries and trimmed fragments are a cut
  of the transcript as the specification describes it (and there is one), the response
  is the summary whose points are the first 6 trimmed fragments that are not empty and
  whose decisions and action items are the fixed placeholders. The summary is normalized:
  the normalizer leaves it unchanged, and it satisfies the invariant of the
  specification. The points are not empty exactly when the transcript has text (a
  character that is not white space and is not a sentence end directly followed by white
  space); for a transcript of white space only there are no points.
\<close>

theorem mock_summary:
  assumes "opt_get req (str ''transcript'') = JStr t" and "t \<noteq> []"
    and "opt_get req (str ''instruction'') = JStr i" and "i \<noteq> []"
    and "USE_MOCK cfg \<or> groq cfg = None"
  shows "(\<exists>fs bs ts. weave fs bs = t \<and> cuts fs bs \<and> list_all2 trims_to fs ts)
       \<and> (\<forall>fs bs ts. weave fs bs = t \<and> cuts fs bs \<and> list_all2 trims_to fs ts \<longrightarrow>
            generate_summary cfg req =
              (\<lparr>status = 200,
                body = JObj [(str ''summary'', JObj
                  [(str ''points'', JArr (map JStr (take 6 (filter (\<lambda>s. s \<noteq> []) ts)))),
                   (str ''decisions'', JArr [JStr (str ''Proceed with current timeline.'')]),
                   (str ''action_items'', JArr
                      [JObj [(str ''owner'', JStr (str ''John'')),
                             (str ''task'', JStr (str ''Finish API integration'')),
                             (str ''due'', JStr (str ''Friday''))],
                       JObj [(str ''owner'', JStr (str ''Sarah'')),
                             (str ''task'', JStr (str ''Design frontend UI'')),
                             (str ''due'', JStr (str ''Wednesday''))]])])]\<rparr>,
               []))
       \<and> ensureSummaryShape (opt_get (body (fst (generate_summary cfg req))) (str ''summary''))
           = opt_get (body (fst (generate_summary cfg req))) (str ''summary'')
       \<and> spec_summary_invariant (opt_get (body (fst (generate_summary cfg req))) (str ''summary''))
       \<and> (opt_get (opt_get (body (fst (generate_summary cfg req))) (str ''summary'')) (str ''points'')
            \<noteq> JArr [] \<longleftrightarrow> has_text t)
       \<and> (list_all is_ws t \<longrightarrow>
            opt_get (opt_get (body (fst (generate_summary cfg req))) (str ''summary'')) (str ''points'')
              = JArr [])"
proof -
  have g: "generate_summary cfg req = (mock_response t, [])"
    by (rule generate_summary_mock [OF assms])
  have s: "opt_get (body (fst (generate_summary cfg req))) (str ''summary'') = mock_candidate t"
    by (simp add: g body_mock_response)
  have p: "opt_get (mock_candidate t) (str ''points'') \<noteq> JArr [] \<longleftrightarrow> has_text t"
    using mock_lines_has_text [of t]
    by (simp add: mock_candidate_points mock_points_limit_def)
  show ?thesis
  proof (intro conjI allI impI)
    show "\<exists>fs bs ts. weave fs bs = t \<and> cuts fs bs \<and> list_all2 trims_to fs ts"
      by (rule mock_lines_spec_ex)
    show "ensureSummaryShape (opt_get (body (fst (generate_summary cfg req))) (str ''summary''))
           = opt_get (body (fst (generate_summary cfg req))) (str ''summary'')"
      by (simp only: s mock_candidate_normal)
    show "spec_summary_invariant (opt_get (body (fst (generate_summary cfg req))) (str ''summary''))"
      by (simp only: s mock_candidate_invariant)
    show "opt_get (opt_get (body (fst (generate_summary cfg req))) (str ''summary'')) (str ''points'')
            \<noteq> JArr [] \<longleftrightarrow> has_text t"
      by (simp only: s p)
  next
    assume "list_all is_ws t"
    then have "\<not> has_text t"
      by (rule no_text_in_ws)
    then show "opt_get (opt_get (body (fst (generate_summary cfg req))) (str ''summary'')) (str ''points'')
              = JArr []"
      using p by (simp only: s) blast
  next
    fix fs bs ts
    assume "weave fs bs = t \<and> cuts fs bs \<and> list_all2 trims_to fs ts"
    then have l: "mock_lines t = filter (\<lambda>s. s \<noteq> []) ts"
      using mock_lines_spec [of fs bs t ts] by blast
    have "mock_candidate t = JObj
                  [(str ''points'', JArr (map JStr (take 6 (filter (\<lambda>s. s \<noteq> []) ts)))),
                   (str ''decisions'', JArr [JStr (str ''Proceed with current timeline.'')]),
                   (str ''action_items'', JArr
                      [JObj [(str ''owner'', JStr (str ''John'')),
                             (str ''task'', JStr (str ''Finish API integration'')),
                             (str ''due'', JStr (str ''Friday''))],
                       JObj [(str ''owner'', JStr (str ''Sarah'')),
                             (str ''task'', JStr (str ''Design frontend UI'')),
                             (str ''due'', JStr (str ''Wednesday''))]])]"
      by (simp add: mock_candidate_def l mock_points_limit_def action_item_def)
    moreover have "generate_summary cfg req =
        (\<lparr>status = 200, body = JObj [(str ''summary'', mock_candidate t)]\<rparr>, [])"
      by (simp add: g mock_response_def json_ok_def mock_candidate_normal)
    ultimately show "generate_summary cfg req =
              (\<lparr>status = 200,
                body = JObj [(str ''summary'', JObj
                  [(str ''points'', JArr (map JStr (take 6 (filter (\<lambda>s. s \<noteq> []) ts)))),
                   (str ''decisions'', JArr [JStr (str ''Proceed with current timeline.'')]),
                   (str ''action_items'', JArr
                      [JObj [(str ''owner'', JStr (str ''John'')),
                             (str ''task'', JStr (str ''Finish API integration'')),
                             (str ''due'', JStr (str ''Friday''))],
                       JObj [(str ''owner'', JStr (str ''Sarah'')),
                             (str ''task'', JStr (str ''Design frontend UI'')),
                             (str ''due'', JStr (str ''Wednesday''))]])])]\<rparr>,
               [])"
      by (simp only:)
  qed
qed

text \<open>The transcript "Line one. Line two." of the specification, cut and trimmed.\<close>

lemma line_cut:
  "weave [str ''Line one'', str ''Line two.''] [str ''. ''] = str ''Line one. Line two.''
   \<and> cuts [str ''Line one'', str ''Line two.''] [str ''. '']
   \<and> list_all2 trims_to [str ''Line one'', str ''Line two.''] [str ''Line one'', str ''Line two.'']"
  by (simp add: str_simps boundary_at_def is_boundary_def is_ws_def is_sentence_end_def
      trims_to_def trimmed_def)

text \<open>
  The request of the specification, answered in mock mode because no credential is
  configured: status 200 and the two points "Line one" and "Line two.".
\<close>

theorem mock_summary_example:
  "generate_summary \<lparr>USE_MOCK = False, groq = None\<rparr>
     (JObj [(str ''transcript'', JStr (str ''Line one. Line two.'')),
            (str ''instruction'', JStr (str ''summarize''))])
   = (\<lparr>status = 200,
       body = JObj [(str ''summary'', JObj
         [(str ''points'', JArr [JStr (str ''Line one''), JStr (str ''Line two.'')]),
          (str ''decisions'', JArr [JStr (str ''Proceed with current timeline.'')]),
          (str ''action_items'', JArr
             [JObj [(str ''owner'', JStr (str ''John'')),
                    (str ''task'', JStr (str ''Finish API integration'')),
                    (str ''due'', JStr (str ''Friday''))],
              JObj [(str ''owner'', JStr (str ''Sarah'')),
                    (str ''task'', JStr (str ''Design frontend UI'')),
                    (str ''due'', JStr (str ''Wednesday''))]])])]\<rparr>,
      [])"
proof -
  let ?req = "JObj [(str ''transcript'', JStr (str ''Line one. Line two.'')),
                    (str ''instruction'', JStr (str ''summarize''))]"
  let ?cfg = "\<lparr>USE_MOCK = False, groq = None\<rparr>"
  have "\<forall>fs bs ts. weave fs bs = str ''Line one. Line two.'' \<and> cuts fs bs \<and> list_all2 trims_to fs ts \<longrightarrow>
            generate_summary ?cfg ?req =
              (\<lparr>status = 200,
                body = JObj [(str ''summary'', JObj
                  [(str ''points'', JArr (map JStr (take 6 (filter (\<lambda>s. s \<noteq> []) ts)))),
                   (str ''decisions'', JArr [JStr (str ''Proceed with current timeline.'')]),
                   (str ''action_items'', JArr
                      [JObj [(str ''owner'', JStr (str ''John'')),
                             (str ''task'', JStr (str ''Finish API integration'')),
                             (str ''due'', JStr (str ''Friday''))],
                       JObj [(str ''owner'', JStr (str ''Sarah'')),
                             (str ''task'', JStr (str ''Design frontend UI'')),
                             (str ''due'', JStr (str ''Wednesday''))]])])]\<rparr>,
               [])"
    using mock_summary [of ?req "str ''Line one. Line two.''" "str ''summarize''" ?cfg]
    by simp
  then have "generate_summary ?cfg ?req =
              (\<lparr>status = 200,
                body = JObj [(str ''summary'', JObj
                  [(str ''points'', JArr (map JStr (take 6 (filter (\<lambda>s. s \<noteq> [])
                       [str ''Line one'', str ''Line two.''])))),
                   (str ''decisions'', JArr [JStr (str ''Proceed with current timeline.'')]),
                   (str ''action_items'', JArr
                      [JObj [(str ''owner'', JStr (str ''John'')),
                             (str ''task'', JStr (str ''Finish API integration'')),
                             (str ''due'', JStr (str ''Friday''))],
                       JObj [(str ''owner'', JStr (str ''Sarah'')),
                             (str ''task'', JStr (str ''Design frontend UI'')),
                             (str ''due'', JStr (str ''Wednesday''))]])])]\<rparr>,
               [])"
    using line_cut by blast
  then show ?thesis
    by simp
qed

lemma blank_lines: "mock_lines (str '' '') = []"
  by (simp add: str_simps mock_lines_def js_split_def js_trim_def is_ws_def is_sentence_end_def)

text \<open>
  C8 as stated fails: a transcript that is a single space is a non-empty string, and the
  summary returned for it in mock mode has no points.
\<close>

theorem mock_summary_blank_transcript:
  "generate_summary \<lparr>USE_MOCK = True, groq = None\<rparr>
     (JObj [(str ''transcript'', JStr (str '' '')), (str ''instruction'', JStr (str ''summarize''))])
   = (\<lparr>status = 200,
       body = JObj [(str ''summary'', JObj
         [(str ''points'', JArr []),
          (str ''decisions'', JArr [JStr (str ''Proceed with current timeline.'')]),
          (str ''action_items'', JArr
             [JObj [(str ''owner'', JStr (str ''John'')),
                    (str ''task'', JStr (str ''Finish API integration'')),
                    (str ''due'', JStr (str ''Friday''))],
              JObj [(str ''owner'', JStr (str ''Sarah'')),
                    (str ''task'', JStr (str ''Design frontend UI'')),
                    (str ''due'', JStr (str ''Wednesday''))]])])]\<rparr>,
      [])"
proof -
  have "mock_candidate (str '' '') = JObj
         [(str ''points'', JArr []),
          (str ''decisions'', JArr [JStr (str ''Proceed with current timeline.'')]),
          (str ''action_items'', JArr
             [JObj [(str ''owner'', JStr (str ''John'')),
                    (str ''task'', JStr (str ''Finish API integration'')),
                    (str ''due'', JStr (str ''Friday''))],
              JObj [(str ''owner'', JStr (str ''Sarah'')),
                    (str ''task'', JStr (str ''Design frontend UI'')),
                    (str ''due'', JStr (str ''Wednesday''))]])]"
    by (simp add: mock_candidate_def action_item_def blank_lines)
  moreover have "generate_summary \<lparr>USE_MOCK = True, groq = None\<rparr>
     (JObj [(str ''transcript'', JStr (str '' '')), (str ''instruction'', JStr (str ''summarize''))])
     = (\<lparr>status = 200, body = JObj [(str ''summary'', mock_candidate (str '' ''))]\<rparr>, [])"
    by (simp add: generate_summary_def js_or_def mock_response_def json_ok_def mock_candidate_normal)
  ultimately show ?thesis
    by (simp only:)
qed

section \<open>Properties of the edit form\<close>

lemma join_strings_map_JStr: "join_strings (map JStr ps) = Some ps"
  by (induction ps) simp_all

lemma toLines_strings: "toLines (JArr (map JStr ps)) = Some (js_join [10] ps)"
  by (simp add: toLines_def safeArr_def array_join_def join_strings_map_JStr)

lemma set_js_trim: "x \<in> set (js_trim s) \<Longrightarrow> x \<in> set s"
proof -
  assume "x \<in> set (js_trim s)"
  then have "x \<in> set (dropWhile is_ws (rev (dropWhile is_ws s)))"
    by (simp add: js_trim_def)
  then have "x \<in> set (rev (dropWhile is_ws s))"
    by (rule set_dropWhileD)
  then have "x \<in> set (dropWhile is_ws s)"
    by simp
  then show "x \<in> set s"
    by (rule set_dropWhileD)
qed

text \<open>No line of the text area holds a line break.\<close>

lemma textarea_value_no_cr: "13 \<notin> set (textarea_value s)"
  by (induction s rule: textarea_value.induct) simp_all

lemma split_nl_from_sets:
  "x \<in> set (split_nl_from frag s) \<Longrightarrow> set x \<subseteq> set frag \<union> (set s - {10})"
proof (induction s arbitrary: frag)
  case Nil
  then show ?case by simp
next
  case (Cons c cs)
  show ?case
  proof (cases "c = 10")
    case True
    with Cons.prems have "x = frag \<or> x \<in> set (split_nl_from [] cs)" by simp
    then show ?thesis
      using Cons.IH [of "[]"] by auto
  next
    case False
    with Cons.prems have "x \<in> set (split_nl_from (frag @ [c]) cs)" by simp
    then have "set x \<subseteq> set (frag @ [c]) \<union> (set cs - {10})"
      by (rule Cons.IH)
    then show ?thesis
      using False by auto
  qed
qed

lemma edited_points_no_break:
  assumes "x \<in> set (edited_points (textarea_value s))"
  shows "10 \<notin> set x \<and> 13 \<notin> set x"
proof -
  from assms obtain y where y: "y \<in> set (split_nl_from [] (textarea_value s))" and x: "x = js_trim y"
    by (auto simp add: edited_points_def split_nl_def)
  from y have "set y \<subseteq> set (textarea_value s) - {10}"
    using split_nl_from_sets [of y "[]" "textarea_value s"] by simp
  then have "10 \<notin> set y \<and> 13 \<notin> set y"
    using textarea_value_no_cr [of s] by auto
  then show ?thesis
    using set_js_trim [of _ y] x by blast
qed

lemma lines_cong_Cons:
  assumes "\<forall>frag. filter (\<lambda>x. x \<noteq> []) (map js_trim (split_nl_from frag r1))
                  = filter (\<lambda>x. x \<noteq> []) (map js_trim (split_nl_from frag r2))"
  shows "filter (\<lambda>x. x \<noteq> []) (map js_trim (split_nl_from frag (x # r1)))
       = filter (\<lambda>x. x \<noteq> []) (map js_trim (split_nl_from frag (x # r2)))"
proof (cases "x = 10")
  case True
  from assms have "filter (\<lambda>x. x \<noteq> []) (map js_trim (split_nl_from [] r1))
                  = filter (\<lambda>x. x \<noteq> []) (map js_trim (split_nl_from [] r2))"
    by (rule spec)
  then show ?thesis
    using True by simp
next
  case False
  from assms have "filter (\<lambda>x. x \<noteq> []) (map js_trim (split_nl_from (frag @ [x]) r1))
                  = filter (\<lambda>x. x \<noteq> []) (map js_trim (split_nl_from (frag @ [x]) r2))"
    by (rule spec)
  then show ?thesis
    using False by simp
qed

text \<open>
  The lines read from the text area, trimmed and without the empty ones, are those of the
  text with every carriage return read as a line feed.
\<close>

lemma textarea_lines:
  "filter (\<lambda>x. x \<noteq> []) (map js_trim (split_nl_from frag (textarea_value s)))
     = filter (\<lambda>x. x \<noteq> []) (map js_trim (split_nl_from frag (map (\<lambda>c. if c = 13 then 10 else c) s)))"
proof (induction s arbitrary: frag rule: textarea_value.induct)
  case 1
  show ?case by simp
next
  case (2 c)
  show ?case by simp
next
  case (3 c d cs)
  show ?case
  proof (cases "c = 13 \<and> d = 10")
    case True
    have "filter (\<lambda>x. x \<noteq> []) (map js_trim (split_nl_from [] (textarea_value cs)))
        = filter (\<lambda>x. x \<noteq> []) (map js_trim (split_nl_from [] (map (\<lambda>c. if c = 13 then 10 else c) cs)))"
      using True by (rule "3.IH"(1))
    then show ?thesis
      using True by simp
  next
    case False
    then have n: "textarea_value (c # d # cs) = (if c = 13 then 10 else c) # textarea_value (d # cs)"
      by (simp only: textarea_value.simps if_False)
    have m: "map (\<lambda>c. if c = 13 then 10 else c) (c # d # cs)
        = (if c = 13 then 10 else c) # map (\<lambda>c. if c = 13 then 10 else c) (d # cs)"
      by simp
    have "\<forall>frag. filter (\<lambda>x. x \<noteq> []) (map js_trim (split_nl_from frag (textarea_value (d # cs))))
        = filter (\<lambda>x. x \<noteq> [])
            (map js_trim (split_nl_from frag (map (\<lambda>c. if c = 13 then 10 else c) (d # cs))))"
      using False "3.IH"(2) by blast
    then show ?thesis
      unfolding n m by (rule lines_cong_Cons)
  qed
qed

lemma split_nl_from_lf:
  "split_nl_from frag (a @ 10 # b) = split_nl_from frag a @ split_nl_from [] b"
  by (induction a arbitrary: frag) simp_all

lemma split_nl_from_plain:
  "10 \<notin> set m \<Longrightarrow> split_nl_from frag (m @ r) = split_nl_from (frag @ m) r"
  by (induction m arbitrary: frag) simp_all

lemma split_nl_from_acc:
  "split_nl_from frag r = (frag @ hd (split_nl_from [] r)) # tl (split_nl_from [] r)"
proof (induction r arbitrary: frag)
  case Nil
  then show ?case by simp
next
  case (Cons c cs)
  show ?case
  proof (cases "c = 10")
    case True
    then show ?thesis by simp
  next
    case False
    have "split_nl_from frag (c # cs) = split_nl_from (frag @ [c]) cs"
      using False by simp
    also have "\<dots> = ((frag @ [c]) @ hd (split_nl_from [] cs)) # tl (split_nl_from [] cs)"
      by (rule Cons.IH)
    finally have l: "split_nl_from frag (c # cs)
        = (frag @ [c] @ hd (split_nl_from [] cs)) # tl (split_nl_from [] cs)"
      by simp
    have "split_nl_from [] (c # cs) = split_nl_from [c] cs"
      using False by simp
    also have "\<dots> = ([c] @ hd (split_nl_from [] cs)) # tl (split_nl_from [] cs)"
      by (rule Cons.IH)
    finally show ?thesis
      by (simp only: l list.sel)
  qed
qed

lemma lines_ws_acc:
  assumes "list_all is_ws frag"
  shows "filter (\<lambda>x. x \<noteq> []) (map js_trim (split_nl_from frag r))
           = filter (\<lambda>x. x \<noteq> []) (map js_trim (split_nl_from [] r))"
proof -
  let ?h = "hd (split_nl_from [] r)" and ?t = "tl (split_nl_from [] r)"
  have a: "split_nl_from frag r = (frag @ ?h) # ?t"
    by (rule split_nl_from_acc)
  have "split_nl_from [] r \<noteq> []"
    by (subst split_nl_from_acc) simp
  then have b: "split_nl_from [] r = ?h # ?t"
    by simp
  have "js_trim (frag @ ?h) = js_trim ?h"
    using assms by (rule js_trim_ws_front)
  then have "filter (\<lambda>x. x \<noteq> []) (map js_trim ((frag @ ?h) # ?t))
           = filter (\<lambda>x. x \<noteq> []) (map js_trim (?h # ?t))"
    by simp
  then show ?thesis
    by (simp only: a b [symmetric])
qed

lemma lines_ws_prefix:
  "list_all is_ws frag \<Longrightarrow> list_all is_ws w \<Longrightarrow>
     filter (\<lambda>x. x \<noteq> []) (map js_trim (split_nl_from frag (w @ r)))
       = filter (\<lambda>x. x \<noteq> []) (map js_trim (split_nl_from [] r))"
proof (induction w arbitrary: frag)
  case Nil
  then show ?case using lines_ws_acc [of frag r] by simp
next
  case (Cons c cs)
  show ?case
  proof (cases "c = 10")
    case True
    have "filter (\<lambda>x. x \<noteq> []) (map js_trim (split_nl_from [] (cs @ r)))
       = filter (\<lambda>x. x \<noteq> []) (map js_trim (split_nl_from [] r))"
      using Cons.prems by (intro Cons.IH) simp_all
    then show ?thesis
      using True Cons.prems by (simp add: js_trim_all_ws)
  next
    case False
    have "filter (\<lambda>x. x \<noteq> []) (map js_trim (split_nl_from (frag @ [c]) (cs @ r)))
       = filter (\<lambda>x. x \<noteq> []) (map js_trim (split_nl_from [] r))"
      using Cons.prems by (intro Cons.IH) simp_all
    then show ?thesis
      using False by simp
  qed
qed

lemma lines_ws_suffix:
  "list_all is_ws w \<Longrightarrow>
     filter (\<lambda>x. x \<noteq> []) (map js_trim (split_nl_from frag w))
       = filter (\<lambda>x. x \<noteq> []) [js_trim frag]"
proof (induction w arbitrary: frag)
  case Nil
  then show ?case by simp
next
  case (Cons c cs)
  show ?case
  proof (cases "c = 10")
    case True
    have "filter (\<lambda>x. x \<noteq> []) (map js_trim (split_nl_from [] cs))
       = filter (\<lambda>x. x \<noteq> []) [js_trim []]"
      using Cons.prems by (intro Cons.IH) simp
    then show ?thesis
      using True by simp
  next
    case False
    have "filter (\<lambda>x. x \<noteq> []) (map js_trim (split_nl_from (frag @ [c]) cs))
       = filter (\<lambda>x. x \<noteq> []) [js_trim (frag @ [c])]"
      using Cons.prems by (intro Cons.IH) simp
    moreover have "js_trim (frag @ [c]) = js_trim frag"
      using Cons.prems by (intro js_trim_ws_back) simp
    ultimately show ?thesis
      using False by simp
  qed
qed

text \<open>An entry whose trimmed form holds no line break is read back as its trimmed form.\<close>

lemma entry_lines:
  assumes "10 \<notin> set (js_trim p)" and "13 \<notin> set (js_trim p)"
  shows "filter (\<lambda>x. x \<noteq> [])
           (map js_trim (split_nl_from [] (map (\<lambda>c. if c = 13 then 10 else c) p)))
         = filter (\<lambda>x. x \<noteq> []) [js_trim p]"
proof -
  let ?cr = "\<lambda>c::nat. if c = 13 then 10 else c"
  let ?m = "js_trim p"
  obtain w1 w2 where p: "p = w1 @ ?m @ w2" and w1: "list_all is_ws w1" and w2: "list_all is_ws w2"
    using js_trim_decomposition [of p] by blast
  have m: "map ?cr ?m = ?m"
    using assms(2) by (intro map_idI) auto
  have "map ?cr p = map ?cr (w1 @ ?m @ w2)"
    using p by simp
  then have e: "map ?cr p = map ?cr w1 @ ?m @ map ?cr w2"
    by (simp only: map_append m)
  have c1: "list_all is_ws (map ?cr w1)"
    using w1 by (auto simp add: list_all_iff)
  have c2: "list_all is_ws (map ?cr w2)"
    using w2 by (auto simp add: list_all_iff)
  have "filter (\<lambda>x. x \<noteq> []) (map js_trim (split_nl_from [] (map ?cr p)))
      = filter (\<lambda>x. x \<noteq> []) (map js_trim (split_nl_from [] (?m @ map ?cr w2)))"
    using lines_ws_prefix [of "[]" "map ?cr w1" "?m @ map ?cr w2"] c1
    by (simp only: e) simp
  also have "\<dots> = filter (\<lambda>x. x \<noteq> []) (map js_trim (split_nl_from ?m (map ?cr w2)))"
    using split_nl_from_plain [OF assms(1), of "[]" "map ?cr w2"] by simp
  also have "\<dots> = filter (\<lambda>x. x \<noteq> []) [js_trim ?m]"
    using c2 by (rule lines_ws_suffix)
  also have "js_trim ?m = ?m"
    using trimmed_js_trim [of p] by (rule trimmed_js_trim_self)
  finally show ?thesis .
qed

lemma joined_lines:
  "list_all (\<lambda>p. 10 \<notin> set (js_trim p) \<and> 13 \<notin> set (js_trim p)) ps \<Longrightarrow>
     filter (\<lambda>x. x \<noteq> [])
       (map js_trim (split_nl_from [] (map (\<lambda>c. if c = 13 then 10 else c) (js_join [10] ps))))
     = filter (\<lambda>x. x \<noteq> []) (map js_trim ps)"
proof (induction "[10] :: jsstring" ps rule: js_join.induct)
  case 1
  then show ?case by simp
next
  case (2 x)
  then show ?case by (simp add: entry_lines)
next
  case (3 x y ys)
  then show ?case
    by (simp add: split_nl_from_lf entry_lines del: js_join.simps(3))
      (simp add: split_nl_from_lf entry_lines)
qed

lemma edit_cycle_strings:
  "edit_cycle (JArr (map JStr ps)) = Some (JArr (map JStr (filter (\<lambda>x. x \<noteq> []) (map js_trim ps))))
     \<longleftrightarrow> list_all (\<lambda>p. 10 \<notin> set (js_trim p) \<and> 13 \<notin> set (js_trim p)) ps"
proof
  assume a: "list_all (\<lambda>p. 10 \<notin> set (js_trim p) \<and> 13 \<notin> set (js_trim p)) ps"
  have "edited_points (textarea_value (js_join [10] ps)) = filter (\<lambda>x. x \<noteq> []) (map js_trim ps)"
    using joined_lines [OF a] by (simp add: edited_points_def split_nl_def textarea_lines)
  then show "edit_cycle (JArr (map JStr ps))
      = Some (JArr (map JStr (filter (\<lambda>x. x \<noteq> []) (map js_trim ps))))"
    by (simp add: edit_cycle_def toLines_strings)
next
  assume "edit_cycle (JArr (map JStr ps))
      = Some (JArr (map JStr (filter (\<lambda>x. x \<noteq> []) (map js_trim ps))))"
  then have "map JStr (edited_points (textarea_value (js_join [10] ps)))
      = map JStr (filter (\<lambda>x. x \<noteq> []) (map js_trim ps))"
    by (simp add: edit_cycle_def toLines_strings)
  then have e: "edited_points (textarea_value (js_join [10] ps))
      = filter (\<lambda>x. x \<noteq> []) (map js_trim ps)"
    by (simp add: inj_map_eq_map inj_on_def)
  show "list_all (\<lambda>p. 10 \<notin> set (js_trim p) \<and> 13 \<notin> set (js_trim p)) ps"
    unfolding list_all_iff
  proof
    fix p
    assume p: "p \<in> set ps"
    show "10 \<notin> set (js_trim p) \<and> 13 \<notin> set (js_trim p)"
    proof (cases "js_trim p = []")
      case True
      then show ?thesis by simp
    next
      case False
      with p have "js_trim p \<in> set (filter (\<lambda>x. x \<noteq> []) (map js_trim ps))"
        by simp
      then have "js_trim p \<in> set (edited_points (textarea_value (js_join [10] ps)))"
        by (simp only: e)
      then show ?thesis
        by (rule edited_points_no_break)
    qed
  qed
qed

text \<open>
  C9. For every sequence of points that are strings, and the trimmed forms of its
  entries (each entry has one): the edit cycle (the points joined with line feeds, read
  back from the text area, split at line feeds, each line trimmed and empty lines dropped)
  returns the trimmed entries that are not empty exactly when no trimmed entry holds a
  line break, that is a line feed or a carriage return.
\<close>

theorem edit_round_trip:
  "(\<exists>ts. list_all2 trims_to ps ts)
   \<and> (\<forall>ts. list_all2 trims_to ps ts \<longrightarrow>
        (edit_cycle (JArr (map JStr ps)) = Some (JArr (map JStr (filter (\<lambda>x. x \<noteq> []) ts)))
         \<longleftrightarrow> list_all (\<lambda>p. 10 \<notin> set p \<and> 13 \<notin> set p) ts))"
proof (intro conjI allI impI)
  have "list_all2 trims_to ps (map js_trim ps)"
    by (simp add: list_all2_trims_to)
  then show "\<exists>ts. list_all2 trims_to ps ts" ..
next
  fix ts
  assume "list_all2 trims_to ps ts"
  then have ts: "ts = map js_trim ps"
    by (simp add: list_all2_trims_to)
  have "list_all (\<lambda>p. 10 \<notin> set p \<and> 13 \<notin> set p) (map js_trim ps)
      \<longleftrightarrow> list_all (\<lambda>p. 10 \<notin> set (js_trim p) \<and> 13 \<notin> set (js_trim p)) ps"
    by (simp add: list_all_iff)
  then show "edit_cycle (JArr (map JStr ps)) = Some (JArr (map JStr (filter (\<lambda>x. x \<noteq> []) ts)))
         \<longleftrightarrow> list_all (\<lambda>p. 10 \<notin> set p \<and> 13 \<notin> set p) ts"
    using edit_cycle_strings [of ps] by (simp only: ts)
qed

lemma example_trims:
  "list_all2 trims_to [str '' A'' @ [10], str ''  '', str ''B'' @ [13], [13, 10] @ str ''C d'']
                      [str ''A'', [], str ''B'', str ''C d'']"
  by (simp add: str_simps is_ws_def trims_to_def trimmed_def
      upt_rec [of 0] upt_rec [of 1] upt_rec [of 2] upt_rec [of 3] upt_rec [of 4] upt_rec [of 5])

text \<open>
  The points \<open>" A\n"\<close>, \<open>"  "\<close>, \<open>"B\r"\<close> and \<open>"\r\nC d"\<close>, with white space and line breaks
  at their ends only, come back as \<open>"A"\<close>, \<open>"B"\<close> and \<open>"C d"\<close>.
\<close>

theorem edit_round_trip_example:
  "edit_cycle (JArr [JStr (str '' A'' @ [10]), JStr (str ''  ''), JStr (str ''B'' @ [13]),
                     JStr ([13, 10] @ str ''C d'')])
     = Some (JArr [JStr (str ''A''), JStr (str ''B''), JStr (str ''C d'')])"
proof -
  have "\<forall>ts. list_all2 trims_to [str '' A'' @ [10], str ''  '', str ''B'' @ [13], [13, 10] @ str ''C d''] ts \<longrightarrow>
        (edit_cycle (JArr (map JStr [str '' A'' @ [10], str ''  '', str ''B'' @ [13], [13, 10] @ str ''C d'']))
           = Some (JArr (map JStr (filter (\<lambda>x. x \<noteq> []) ts)))
         \<longleftrightarrow> list_all (\<lambda>p. 10 \<notin> set p \<and> 13 \<notin> set p) ts)"
    using edit_round_trip [of "[str '' A'' @ [10], str ''  '', str ''B'' @ [13], [13, 10] @ str ''C d'']"]
    by (rule conjunct2)
  then have "edit_cycle (JArr (map JStr [str '' A'' @ [10], str ''  '', str ''B'' @ [13], [13, 10] @ str ''C d'']))
           = Some (JArr (map JStr (filter (\<lambda>x. x \<noteq> []) [str ''A'', [], str ''B'', str ''C d''])))
         \<longleftrightarrow> list_all (\<lambda>p. 10 \<notin> set p \<and> 13 \<notin> set p) [str ''A'', [], str ''B'', str ''C d'']"
    using example_trims by blast
  then show ?thesis
    by (simp add: str_simps)
qed

text \<open>
  C9 as stated fails: the point \<open>"a\nb"\<close> is trimmed and not blank, and the edit cycle
  returns the two points \<open>"a"\<close> and \<open>"b"\<close> for it.
\<close>

theorem edit_round_trip_splits_point:
  "edit_cycle (JArr [JStr (str ''a'' @ [10] @ str ''b'')]) = Some (JArr [JStr (str ''a''), JStr (str ''b'')])
   \<and> trims_to (str ''a'' @ [10] @ str ''b'') (str ''a'' @ [10] @ str ''b'')"
  by (simp add: edit_cycle_def toLines_def array_join_def safeArr_def edited_points_def split_nl_def
      js_trim_def is_ws_def str_simps trims_to_def trimmed_def)

section \<open>Properties of POST /send-summary\<close>

text \<open>
  C7. When the recipients sequence of a request is empty, the handler answers with
  status 400 ("Recipients array is required") and the mail collaborator is not called.
\<close>

theorem send_summary_rejects_empty_recipients:
  assumes "opt_get req (str ''recipients'') = JArr []"
  shows "send_summary mail req =
           (\<lparr>status = 400, body = JObj [(str ''error'', JStr (str ''Recipients array is required''))]\<rparr>,
            [])"
  using assms by (simp add: send_summary_def js_or_def json_error_def truthy_length)

text \<open>
  The request \<open>{summary: {points: ["A"]}, recipients: []}\<close> of the specification, with a
  mail collaborator that would succeed.
\<close>

theorem send_summary_rejects_example:
  "send_summary (\<lambda>recipients subject html. Some (JStr (str ''https://preview'')))
     (JObj [(str ''summary'', JObj [(str ''points'', JArr [JStr (str ''A'')])]),
            (str ''recipients'', JArr [])])
   = (\<lparr>status = 400, body = JObj [(str ''error'', JStr (str ''Recipients array is required''))]\<rparr>,
      [])"
  using send_summary_rejects_empty_recipients
    [of "JObj [(str ''summary'', JObj [(str ''points'', JArr [JStr (str ''A'')])]),
               (str ''recipients'', JArr [])]"
        "\<lambda>recipients subject html. Some (JStr (str ''https://preview''))"]
  by simp

section \<open>Properties of the rendering\<close>

lemma render_items_eq:
  "render_items xs = (if list_all renders xs then Some (concat (map li (map text_of xs))) else None)"
proof (induction xs)
  case Nil
  show ?case by (simp add: render_items_def)
next
  case (Cons x xs)
  show ?case
  proof (cases "ToString x")
    case None
    then show ?thesis by (simp add: render_items_def renders_def)
  next
    case (Some s)
    show ?thesis
    proof (cases "list_all renders xs")
      case True
      with Cons have "those (map (\<lambda>p. map_option (\<lambda>s. str ''<li>'' @ s @ str ''</li>'') (ToString p)) xs)
          \<noteq> None"
        by (auto simp add: render_items_def)
      then obtain ys where ys:
        "those (map (\<lambda>p. map_option (\<lambda>s. str ''<li>'' @ s @ str ''</li>'') (ToString p)) xs) = Some ys"
        by blast
      with Cons True have c: "concat ys = concat (map li (map text_of xs))"
        by (simp add: render_items_def)
      have rx: "renders x" "text_of x = s"
        using Some by (simp_all add: renders_def text_of_def)
      have "render_items (x # xs) = Some (li s @ concat ys)"
        using Some ys by (simp add: render_items_def li_def)
      then show ?thesis
        using rx True c by simp
    next
      case False
      with Cons have "those (map (\<lambda>p. map_option (\<lambda>s. str ''<li>'' @ s @ str ''</li>'') (ToString p)) xs)
          = None"
        by (simp add: render_items_def)
      then show ?thesis
        using Some False by (simp add: render_items_def)
    qed
  qed
qed

lemma js_get_defined: "a \<noteq> JUndefined \<Longrightarrow> a \<noteq> JNull \<Longrightarrow> js_get a k = Some (opt_get a k)"
  by (cases a) (simp_all add: opt_get_def)

lemma render_action_eq:
  "render_action a =
     (if a \<noteq> JUndefined \<and> a \<noteq> JNull \<and> renders (opt_get a (str ''owner''))
         \<and> renders (opt_get a (str ''task'')) \<and> renders (opt_get a (str ''due''))
      then Some (action_line [32, 226, 8364, 8221, 32]
             (text_of (opt_get a (str ''owner''))) (text_of (opt_get a (str ''task'')))
             (text_of (opt_get a (str ''due''))))
      else None)"
proof (cases "a = JUndefined \<or> a = JNull")
  case True
  then show ?thesis by (auto simp add: render_action_def)
next
  case False
  then have g: "js_get a k = Some (opt_get a k)" for k
    by (simp add: js_get_defined)
  show ?thesis
    using False
    by (auto simp add: render_action_def g renders_def text_of_def action_line_def)
qed

lemma render_action_plain_eq:
  "render_action_plain a =
     (if a \<noteq> JUndefined \<and> a \<noteq> JNull
         \<and> renders (js_or (opt_get a (str ''owner'')) (JStr (str ''Owner'')))
         \<and> renders (js_or (opt_get a (str ''task'')) (JStr []))
         \<and> renders (js_or (opt_get a (str ''due'')) (JStr []))
      then Some (action_line [32, 8212, 32]
             (text_of (js_or (opt_get a (str ''owner'')) (JStr (str ''Owner''))))
             (text_of (js_or (opt_get a (str ''task'')) (JStr [])))
             (text_of (js_or (opt_get a (str ''due'')) (JStr []))))
      else None)"
proof (cases "a = JUndefined \<or> a = JNull")
  case True
  then show ?thesis by (auto simp add: render_action_plain_def)
next
  case False
  then have g: "js_get a k = Some (opt_get a k)" for k
    by (simp add: js_get_defined)
  show ?thesis
    using False
    by (auto simp add: render_action_plain_def g renders_def text_of_def action_line_def)
qed

lemma render_actions_eq:
  "those (map render_action xs) =
     (if list_all (\<lambda>a. a \<noteq> JUndefined \<and> a \<noteq> JNull \<and> renders (opt_get a (str ''owner''))
                       \<and> renders (opt_get a (str ''task'')) \<and> renders (opt_get a (str ''due''))) xs
      then Some (map (\<lambda>a. action_line [32, 226, 8364, 8221, 32]
                  (text_of (opt_get a (str ''owner''))) (text_of (opt_get a (str ''task'')))
                  (text_of (opt_get a (str ''due'')))) xs)
      else None)"
  by (induction xs) (simp_all add: render_action_eq)

lemma render_actions_plain_eq:
  "those (map render_action_plain xs) =
     (if list_all (\<lambda>a. a \<noteq> JUndefined \<and> a \<noteq> JNull
                \<and> renders (js_or (opt_get a (str ''owner'')) (JStr (str ''Owner'')))
                \<and> renders (js_or (opt_get a (str ''task'')) (JStr []))
                \<and> renders (js_or (opt_get a (str ''due'')) (JStr []))) xs
      then Some (map (\<lambda>a. action_line [32, 8212, 32]
                  (text_of (js_or (opt_get a (str ''owner'')) (JStr (str ''Owner''))))
                  (text_of (js_or (opt_get a (str ''task'')) (JStr [])))
                  (text_of (js_or (opt_get a (str ''due'')) (JStr [])))) xs)
      else None)"
  by (induction xs) (simp_all add: render_action_plain_eq)

lemma three_arrays_cases:
  assumes "three_arrays s"
  obtains ps ds as where
    "s = JObj [(str ''points'', JArr ps), (str ''decisions'', JArr ds), (str ''action_items'', JArr as)]"
proof -
  from assms obtain kvs where k: "s = JObj kvs"
    by (cases s) (simp_all add: three_arrays_def)
  with assms have m: "map fst kvs = [str ''points'', str ''decisions'', str ''action_items'']"
    and l: "list_all isArray (map snd kvs)"
    by (simp_all add: three_arrays_def)
  from m obtain v1 v2 v3 where
    kv: "kvs = [(str ''points'', v1), (str ''decisions'', v2), (str ''action_items'', v3)]"
    by (auto simp add: map_eq_Cons_conv)
  with l obtain ps ds as where "v1 = JArr ps" "v2 = JArr ds" "v3 = JArr as"
    by (cases v1; cases v2; cases v3) simp_all
  with k kv that show ?thesis by blast
qed

lemma action_record_defined: "is_action_record a \<Longrightarrow> a \<noteq> JUndefined \<and> a \<noteq> JNull"
  by (cases a) (simp_all add: is_action_record_def)

text \<open>
  The rendering of the current server throws exactly when a value of the normalized
  summary cannot be converted, and gives the expected fragment otherwise.
\<close>

lemma render_summary_eq:
  assumes "summary_shape s"
  shows "render_summary s = (if can_render s then Some (expected_html s) else None)"
proof -
  from assms have "three_arrays s"
    by (simp add: summary_shape_def)
  then obtain ps ds as where
    s: "s = JObj [(str ''points'', JArr ps), (str ''decisions'', JArr ds), (str ''action_items'', JArr as)]"
    by (rule three_arrays_cases)
  from assms s have "list_all is_action_record as"
    by (simp add: summary_shape_def)
  then have d: "list_all (\<lambda>a. a \<noteq> JUndefined \<and> a \<noteq> JNull \<and> renders (opt_get a (str ''owner''))
                       \<and> renders (opt_get a (str ''task'')) \<and> renders (opt_get a (str ''due''))) as
      \<longleftrightarrow> list_all (\<lambda>a. renders (opt_get a (str ''owner''))
                       \<and> renders (opt_get a (str ''task'')) \<and> renders (opt_get a (str ''due''))) as"
    using action_record_defined by (auto simp add: list_all_iff)
  show ?thesis
    by (simp add: s render_summary_def render_items_eq render_actions_eq d truthy_length
        can_render_def expected_html_def summary_html_def)
qed

lemma render_summary_plain_eq:
  assumes "three_arrays s"
  shows "render_summary_plain s = (if can_render_plain s then Some (expected_html_plain s) else None)"
proof -
  from assms obtain ps ds as where
    s: "s = JObj [(str ''points'', JArr ps), (str ''decisions'', JArr ds), (str ''action_items'', JArr as)]"
    by (rule three_arrays_cases)
  show ?thesis
    by (simp add: s render_summary_plain_def render_items_eq render_actions_plain_eq truthy_length
        can_render_plain_def expected_html_plain_def summary_html_def)
qed

section \<open>Properties of POST /send-summary, whatever the summary\<close>

lemma no_arrays_cases:
  assumes "(\<forall>kvs. v \<noteq> JObj kvs)
           \<or> (\<not> isArray (opt_get v (str ''points'')) \<and> \<not> isArray (opt_get v (str ''decisions''))
              \<and> \<not> isArray (opt_get v (str ''action_items'')))"
  shows "\<not> isArray (opt_get (js_or v (JObj [])) (str ''points''))
       \<and> \<not> isArray (opt_get (js_or v (JObj [])) (str ''decisions''))
       \<and> \<not> isArray (opt_get (js_or v (JObj [])) (str ''action_items''))"
  using assms by (cases v) (auto simp add: js_or_def)

lemma send_summary_eq:
  assumes "opt_get req (str ''recipients'') = JArr (r # rs)"
  shows "send_summary mail req =
     (if can_render (request_summary req)
      then (case mail (JArr (r # rs)) (str ''Meeting Summary'') (expected_html (request_summary req)) of
              None \<Rightarrow>
                (\<lparr>status = 500, body = JObj [(str ''error'', JStr (str ''Failed to send summary''))]\<rparr>,
                 [(JArr (r # rs), str ''Meeting Summary'', expected_html (request_summary req))])
            | Some url \<Rightarrow>
                (\<lparr>status = 200,
                  body = JObj [(str ''message'', JStr (str ''Email sent (preview available)'')),
                               (str ''previewUrl'', url)]\<rparr>,
                 [(JArr (r # rs), str ''Meeting Summary'', expected_html (request_summary req))]))
      else (\<lparr>status = 500, body = JObj [(str ''error'', JStr (str ''Failed to send summary''))]\<rparr>,
            []))"
proof -
  have rc: "js_or (opt_get req (str ''recipients'')) (JArr []) = JArr (r # rs)"
    by (simp add: assms js_or_def)
  have h: "render_summary (ensureSummaryShape (js_or (opt_get req (str ''summary'')) (JObj [])))
      = (if can_render (request_summary req) then Some (expected_html (request_summary req)) else None)"
    unfolding request_summary_def by (rule render_summary_eq) (rule summary_shape_ensure)
  show ?thesis
    by (simp add: send_summary_def rc h truthy_length send_failed_def json_error_def json_ok_def
        Let_def split: option.splits)
qed

lemma send_summary_plain_eq:
  assumes "opt_get req (str ''recipients'') = JArr (r # rs)"
  shows "send_summary_plain mail req =
     (if can_render_plain (request_summary_plain req)
      then (case mail (JArr (r # rs)) (str ''Meeting Summary'')
                   (expected_html_plain (request_summary_plain req)) of
              None \<Rightarrow>
                (\<lparr>status = 500, body = JObj [(str ''error'', JStr (str ''Failed to send summary''))]\<rparr>,
                 [(JArr (r # rs), str ''Meeting Summary'', expected_html_plain (request_summary_plain req))])
            | Some url \<Rightarrow>
                (\<lparr>status = 200,
                  body = JObj [(str ''message'', JStr (str ''Mock email sent'')),
                               (str ''previewUrl'', url)]\<rparr>,
                 [(JArr (r # rs), str ''Meeting Summary'', expected_html_plain (request_summary_plain req))]))
      else (\<lparr>status = 500, body = JObj [(str ''error'', JStr (str ''Failed to send summary''))]\<rparr>,
            []))"
proof -
  have rc: "js_or (opt_get req (str ''recipients'')) (JArr []) = JArr (r # rs)"
    by (simp add: assms js_or_def)
  have h: "render_summary_plain (ensureSummaryShape_plain (js_or (opt_get req (str ''summary'')) (JObj [])))
      = (if can_render_plain (request_summary_plain req)
         then Some (expected_html_plain (request_summary_plain req)) else None)"
    unfolding request_summary_plain_def by (rule render_summary_plain_eq) (rule three_arrays_ensure_plain)
  show ?thesis
    by (simp add: send_summary_plain_def rc h truthy_length send_failed_def json_error_def json_ok_def
        Let_def split: option.splits)
qed

lemma empty_summary_renders:
  "can_render (JObj [(str ''points'', JArr []), (str ''decisions'', JArr []), (str ''action_items'', JArr [])])
   \<and> can_render_plain
       (JObj [(str ''points'', JArr []), (str ''decisions'', JArr []), (str ''action_items'', JArr [])])
   \<and> expected_html
       (JObj [(str ''points'', JArr []), (str ''decisions'', JArr []), (str ''action_items'', JArr [])])
     = str ''<h2>Meeting Summary</h2><h4>Key Points</h4><ul></ul>''
   \<and> expected_html_plain
       (JObj [(str ''points'', JArr []), (str ''decisions'', JArr []), (str ''action_items'', JArr [])])
     = str ''<h2>Meeting Summary</h2><h4>Key Points</h4><ul></ul>''"
  by (simp add: can_render_def can_render_plain_def expected_html_def expected_html_plain_def
      summary_html_def str_append)

text \<open>
  C10. For every request with a non-empty recipients sequence, in the current server and
  in the handler of \<^verbatim>\<open>src/server.js\<close>: the summary of the request is normalized, and
  the answer is decided by the normalized summary alone. When every value it renders can
  be converted to a string, the mail collaborator is called once, with the recipients,
  the subject "Meeting Summary" and the HTML fragment of the normalized summary, and the
  answer is 200 with the preview locator when the collaborator succeeds and 500 when it
  throws. When some value cannot be converted (in \<^verbatim>\<open>src/server.js\<close> also when an
  action item is \<open>undefined\<close> or \<open>null\<close>), the answer is 500 and the collaborator is not
  called. The status is never 400. A summary that is not an object, or whose three fields
  are not sequences, is normalized to the empty summary, which renders as the fragment
  with an empty list of key points.
\<close>

theorem send_summary_accepts_any_summary:
  assumes "opt_get req (str ''recipients'') = JArr (r # rs)"
  shows "send_summary mail req =
     (if can_render (request_summary req)
      then (case mail (JArr (r # rs)) (str ''Meeting Summary'') (expected_html (request_summary req)) of
              None \<Rightarrow>
                (\<lparr>status = 500, body = JObj [(str ''error'', JStr (str ''Failed to send summary''))]\<rparr>,
                 [(JArr (r # rs), str ''Meeting Summary'', expected_html (request_summary req))])
            | Some url \<Rightarrow>
                (\<lparr>status = 200,
                  body = JObj [(str ''message'', JStr (str ''Email sent (preview available)'')),
                               (str ''previewUrl'', url)]\<rparr>,
                 [(JArr (r # rs), str ''Meeting Summary'', expected_html (request_summary req))]))
      else (\<lparr>status = 500, body = JObj [(str ''error'', JStr (str ''Failed to send summary''))]\<rparr>,
            []))
   \<and> send_summary_plain mail req =
     (if can_render_plain (request_summary_plain req)
      then (case mail (JArr (r # rs)) (str ''Meeting Summary'')
                   (expected_html_plain (request_summary_plain req)) of
              None \<Rightarrow>
                (\<lparr>status = 500, body = JObj [(str ''error'', JStr (str ''Failed to send summary''))]\<rparr>,
                 [(JArr (r # rs), str ''Meeting Summary'', expected_html_plain (request_summary_plain req))])
            | Some url \<Rightarrow>
                (\<lparr>status = 200,
                  body = JObj [(str ''message'', JStr (str ''Mock email sent'')),
                               (str ''previewUrl'', url)]\<rparr>,
                 [(JArr (r # rs), str ''Meeting Summary'', expected_html_plain (request_summary_plain req))]))
      else (\<lparr>status = 500, body = JObj [(str ''error'', JStr (str ''Failed to send summary''))]\<rparr>,
            []))
   \<and> status (fst (send_summary mail req)) \<noteq> 400
   \<and> status (fst (send_summary_plain mail req)) \<noteq> 400
   \<and> request_summary req = ensureSummaryShape (js_or (opt_get req (str ''summary'')) (JObj []))
   \<and> request_summary_plain req
       = ensureSummaryShape_plain (js_or (opt_get req (str ''summary'')) (JObj []))
   \<and> ((\<forall>kvs. opt_get req (str ''summary'') \<noteq> JObj kvs)
        \<or> (\<not> isArray (opt_get (opt_get req (str ''summary'')) (str ''points''))
           \<and> \<not> isArray (opt_get (opt_get req (str ''summary'')) (str ''decisions''))
           \<and> \<not> isArray (opt_get (opt_get req (str ''summary'')) (str ''action_items'')))
       \<longrightarrow> request_summary req
             = JObj [(str ''points'', JArr []), (str ''decisions'', JArr []), (str ''action_items'', JArr [])]
         \<and> request_summary_plain req
             = JObj [(str ''points'', JArr []), (str ''decisions'', JArr []), (str ''action_items'', JArr [])]
         \<and> can_render (request_summary req) \<and> can_render_plain (request_summary_plain req)
         \<and> expected_html (request_summary req)
             = str ''<h2>Meeting Summary</h2><h4>Key Points</h4><ul></ul>''
         \<and> expected_html_plain (request_summary_plain req)
             = str ''<h2>Meeting Summary</h2><h4>Key Points</h4><ul></ul>'')"
proof (intro conjI impI)
  show "send_summary mail req =
     (if can_render (request_summary req)
      then (case mail (JArr (r # rs)) (str ''Meeting Summary'') (expected_html (request_summary req)) of
              None \<Rightarrow>
                (\<lparr>status = 500, body = JObj [(str ''error'', JStr (str ''Failed to send summary''))]\<rparr>,
                 [(JArr (r # rs), str ''Meeting Summary'', expected_html (request_summary req))])
            | Some url \<Rightarrow>
                (\<lparr>status = 200,
                  body = JObj [(str ''message'', JStr (str ''Email sent (preview available)'')),
                               (str ''previewUrl'', url)]\<rparr>,
                 [(JArr (r # rs), str ''Meeting Summary'', expected_html (request_summary req))]))
      else (\<lparr>status = 500, body = JObj [(str ''error'', JStr (str ''Failed to send summary''))]\<rparr>,
            []))"
    using assms by (rule send_summary_eq)
  show "send_summary_plain mail req =
     (if can_render_plain (request_summary_plain req)
      then (case mail (JArr (r # rs)) (str ''Meeting Summary'')
                   (expected_html_plain (request_summary_plain req)) of
              None \<Rightarrow>
                (\<lparr>status = 500, body = JObj [(str ''error'', JStr (str ''Failed to send summary''))]\<rparr>,
                 [(JArr (r # rs), str ''Meeting Summary'', expected_html_plain (request_summary_plain req))])
            | Some url \<Rightarrow>
                (\<lparr>status = 200,
                  body = JObj [(str ''message'', JStr (str ''Mock email sent'')),
                               (str ''previewUrl'', url)]\<rparr>,
                 [(JArr (r # rs), str ''Meeting Summary'', expected_html_plain (request_summary_plain req))]))
      else (\<lparr>status = 500, body = JObj [(str ''error'', JStr (str ''Failed to send summary''))]\<rparr>,
            []))"
    using assms by (rule send_summary_plain_eq)
  show "status (fst (send_summary mail req)) \<noteq> 400"
    by (simp add: send_summary_eq [OF assms] split: option.splits)
  show "status (fst (send_summary_plain mail req)) \<noteq> 400"
    by (simp add: send_summary_plain_eq [OF assms] split: option.splits)
  show "request_summary req = ensureSummaryShape (js_or (opt_get req (str ''summary'')) (JObj []))"
    by (rule request_summary_def)
  show "request_summary_plain req
       = ensureSummaryShape_plain (js_or (opt_get req (str ''summary'')) (JObj []))"
    by (rule request_summary_plain_def)
next
  assume "(\<forall>kvs. opt_get req (str ''summary'') \<noteq> JObj kvs)
        \<or> (\<not> isArray (opt_get (opt_get req (str ''summary'')) (str ''points''))
           \<and> \<not> isArray (opt_get (opt_get req (str ''summary'')) (str ''decisions''))
           \<and> \<not> isArray (opt_get (opt_get req (str ''summary'')) (str ''action_items'')))"
  then have n: "\<not> isArray (opt_get (js_or (opt_get req (str ''summary'')) (JObj [])) (str ''points''))
       \<and> \<not> isArray (opt_get (js_or (opt_get req (str ''summary'')) (JObj [])) (str ''decisions''))
       \<and> \<not> isArray (opt_get (js_or (opt_get req (str ''summary'')) (JObj [])) (str ''action_items''))"
    by (rule no_arrays_cases)
  show e: "request_summary req
      = JObj [(str ''points'', JArr []), (str ''decisions'', JArr []), (str ''action_items'', JArr [])]"
    using n by (simp add: request_summary_def ensureSummaryShape_def)
  show p: "request_summary_plain req
      = JObj [(str ''points'', JArr []), (str ''decisions'', JArr []), (str ''action_items'', JArr [])]"
    using n by (simp add: request_summary_plain_def ensureSummaryShape_plain_def)
  show "can_render (request_summary req)"
    using empty_summary_renders by (simp only: e)
  show "can_render_plain (request_summary_plain req)"
    using empty_summary_renders by (simp only: p)
  show "expected_html (request_summary req) = str ''<h2>Meeting Summary</h2><h4>Key Points</h4><ul></ul>''"
    using empty_summary_renders by (simp only: e)
  show "expected_html_plain (request_summary_plain req)
      = str ''<h2>Meeting Summary</h2><h4>Key Points</h4><ul></ul>''"
    using empty_summary_renders by (simp only: p)
qed

text \<open>
  The request \<open>{summary: {points: ["A", 1], decisions: "none", action_items: [{task: "T"}]},
  recipients: ["a@example.com"]}\<close> with a mail collaborator that succeeds: the decisions,
  not a sequence, are left out, the number is rendered as a point, and the owner of the
  action item is \<open>"Unassigned"\<close> in the current server and \<open>"Owner"\<close> in the handler of
  \<^verbatim>\<open>src/server.js\<close>.
\<close>

theorem send_summary_wrong_typed_summary:
  "send_summary (\<lambda>recipients subject html. Some (JStr (str ''https://preview'')))
     (JObj [(str ''summary'', JObj [(str ''points'', JArr [JStr (str ''A''), JNum (str ''1'')]),
                                    (str ''decisions'', JStr (str ''none'')),
                                    (str ''action_items'', JArr [JObj [(str ''task'', JStr (str ''T''))]])]),
            (str ''recipients'', JArr [JStr (str ''a@example.com'')])])
   = (\<lparr>status = 200,
       body = JObj [(str ''message'', JStr (str ''Email sent (preview available)'')),
                    (str ''previewUrl'', JStr (str ''https://preview''))]\<rparr>,
      [(JArr [JStr (str ''a@example.com'')], str ''Meeting Summary'',
        str ''<h2>Meeting Summary</h2><h4>Key Points</h4><ul><li>A</li><li>1</li></ul>''
        @ str ''<h4>Action Items</h4><ul><li><strong>Unassigned</strong>: T''
        @ [32, 226, 8364, 8221, 32] @ str ''<em></em></li></ul>'')])
   \<and> send_summary_plain (\<lambda>recipients subject html. Some (JStr (str ''https://preview'')))
     (JObj [(str ''summary'', JObj [(str ''points'', JArr [JStr (str ''A''), JNum (str ''1'')]),
                                    (str ''decisions'', JStr (str ''none'')),
                                    (str ''action_items'', JArr [JObj [(str ''task'', JStr (str ''T''))]])]),
            (str ''recipients'', JArr [JStr (str ''a@example.com'')])])
   = (\<lparr>status = 200,
       body = JObj [(str ''message'', JStr (str ''Mock email sent'')),
                    (str ''previewUrl'', JStr (str ''https://preview''))]\<rparr>,
      [(JArr [JStr (str ''a@example.com'')], str ''Meeting Summary'',
        str ''<h2>Meeting Summary</h2><h4>Key Points</h4><ul><li>A</li><li>1</li></ul>''
        @ str ''<h4>Action Items</h4><ul><li><strong>Owner</strong>: T''
        @ [32, 8212, 32] @ str ''<em></em></li></ul>'')])"
proof -
  let ?req = "JObj [(str ''summary'', JObj [(str ''points'', JArr [JStr (str ''A''), JNum (str ''1'')]),
                                    (str ''decisions'', JStr (str ''none'')),
                                    (str ''action_items'', JArr [JObj [(str ''task'', JStr (str ''T''))]])]),
            (str ''recipients'', JArr [JStr (str ''a@example.com'')])]"
  let ?mail = "\<lambda>(recipients :: jsval) (subject :: jsstring) (html :: jsstring). Some (JStr (str ''https://preview''))"
  have s: "request_summary ?req =
      JObj [(str ''points'', JArr [JStr (str ''A''), JNum (str ''1'')]),
            (str ''decisions'', JArr []),
            (str ''action_items'', JArr [JObj [(str ''owner'', JStr (str ''Unassigned'')),
                                               (str ''task'', JStr (str ''T'')),
                                               (str ''due'', JStr [])]])]"
    by (simp add: request_summary_def ensureSummaryShape_def normalize_action_item_def js_or_def)
  have p: "request_summary_plain ?req =
      JObj [(str ''points'', JArr [JStr (str ''A''), JNum (str ''1'')]),
            (str ''decisions'', JArr []),
            (str ''action_items'', JArr [JObj [(str ''task'', JStr (str ''T''))]])]"
    by (simp add: request_summary_plain_def ensureSummaryShape_plain_def js_or_def)
  have c: "can_render (request_summary ?req)"
    by (simp add: s can_render_def renders_def)
  have cp: "can_render_plain (request_summary_plain ?req)"
    by (simp add: p can_render_plain_def renders_def js_or_def)
  have h: "expected_html (request_summary ?req)
      = str ''<h2>Meeting Summary</h2><h4>Key Points</h4><ul><li>A</li><li>1</li></ul>''
        @ str ''<h4>Action Items</h4><ul><li><strong>Unassigned</strong>: T''
        @ [32, 226, 8364, 8221, 32] @ str ''<em></em></li></ul>''"
    by (simp only: s) (simp add: expected_html_def summary_html_def li_def action_line_def text_of_def
        str_simps)
  have hp: "expected_html_plain (request_summary_plain ?req)
      = str ''<h2>Meeting Summary</h2><h4>Key Points</h4><ul><li>A</li><li>1</li></ul>''
        @ str ''<h4>Action Items</h4><ul><li><strong>Owner</strong>: T''
        @ [32, 8212, 32] @ str ''<em></em></li></ul>''"
    by (simp only: p) (simp add: expected_html_plain_def summary_html_def li_def action_line_def
        text_of_def js_or_def str_simps)
  have r: "opt_get ?req (str ''recipients'') = JArr (JStr (str ''a@example.com'') # [])"
    by simp
  note t = send_summary_accepts_any_summary [OF r, of ?mail]
  from t have "send_summary ?mail ?req =
      (\<lparr>status = 200,
        body = JObj [(str ''message'', JStr (str ''Email sent (preview available)'')),
                     (str ''previewUrl'', JStr (str ''https://preview''))]\<rparr>,
       [(JArr [JStr (str ''a@example.com'')], str ''Meeting Summary'', expected_html (request_summary ?req))])"
    using c by (simp only: if_True option.case)
  moreover from t have "send_summary_plain ?mail ?req =
      (\<lparr>status = 200,
        body = JObj [(str ''message'', JStr (str ''Mock email sent'')),
                     (str ''previewUrl'', JStr (str ''https://preview''))]\<rparr>,
       [(JArr [JStr (str ''a@example.com'')], str ''Meeting Summary'',
         expected_html_plain (request_summary_plain ?req))])"
    using cp by (simp only: if_True option.case)
  ultimately show ?thesis
    by (simp only: h hp)
qed

text \<open>
  C10 as stated fails: the recipients are not empty and the mail collaborator would
  succeed, yet the request is answered with 500, without a call of the collaborator,
  because of its summary: in the current server for a point that is an object with an
  own property \<open>toString\<close>, in the handler of \<^verbatim>\<open>src/server.js\<close> already for an action
  item that is \<open>null\<close>.
\<close>

theorem send_summary_unrenderable_summary:
  "send_summary (\<lambda>recipients subject html. Some (JStr (str ''https://preview'')))
     (JObj [(str ''summary'', JObj [(str ''points'', JArr [JObj [(str ''toString'', JNum (str ''1''))]])]),
            (str ''recipients'', JArr [JStr (str ''a@example.com'')])])
   = (\<lparr>status = 500, body = JObj [(str ''error'', JStr (str ''Failed to send summary''))]\<rparr>, [])
   \<and> send_summary_plain (\<lambda>recipients subject html. Some (JStr (str ''https://preview'')))
     (JObj [(str ''summary'', JObj [(str ''action_items'', JArr [JNull])]),
            (str ''recipients'', JArr [JStr (str ''a@example.com'')])])
   = (\<lparr>status = 500, body = JObj [(str ''error'', JStr (str ''Failed to send summary''))]\<rparr>, [])"
  by (simp add: send_summary_def send_summary_plain_def js_or_def ensureSummaryShape_def
      ensureSummaryShape_plain_def render_summary_def render_summary_plain_def render_items_def
      render_action_plain_def send_failed_def json_error_def Let_def truthy_length)

end
